theory Spec2Isabelle
  imports Complex_Main
begin

section \<open>The Y-branch optimisation script: data model\<close>

text \<open>
  The script \<^verbatim>\<open>y_branch_opt_2D.py\<close> builds a polygon from ten spline parameters, loads
  earlier parameters from a text file, runs an optimiser and stores the best parameters.
  Python floats are idealised as real numbers; \<^verbatim>\<open>1.0e-6\<close> is written \<open>1.0 / 10 ^ 6\<close>.
  A one-dimensional numpy array is a list, an exception is a value of type \<open>error\<close>.
\<close>

datatype error = ValueError | OSError

type_synonym point = "real \<times> real"

subsection \<open>numpy helpers\<close>

text \<open>
  \<^verbatim>\<open>np.linspace(start, stop, num)\<close> with the default \<^verbatim>\<open>endpoint=True\<close>: the step is
  \<^verbatim>\<open>(stop - start) / (num - 1)\<close>, element \<open>i\<close> is \<^verbatim>\<open>start + i * step\<close>, and the last
  element is overwritten with \<^verbatim>\<open>stop\<close> itself.
\<close>

definition linspace :: "real \<Rightarrow> real \<Rightarrow> nat \<Rightarrow> real list" where
  "linspace start stop num =
     (if num = 0 then []
      else if num = 1 then [start]
      else map (\<lambda>i. start + real i * ((stop - start) / real (num - 1))) [0..<num - 1] @ [stop])"

text \<open>
  \<^verbatim>\<open>min\<close> and \<^verbatim>\<open>max\<close> of a sequence (the builtins and the array methods alike) scan it from
  its first element and raise \<^verbatim>\<open>ValueError\<close> on an empty one.
\<close>

fun amin :: "real list \<Rightarrow> error + real" where
  "amin [] = Inl ValueError"
| "amin (x # xs) = Inr (fold min xs x)"

fun amax :: "real list \<Rightarrow> error + real" where
  "amax [] = Inl ValueError"
| "amax (x # xs) = Inr (fold max xs x)"

subsection \<open>The interpolation object\<close>

text \<open>
  \<^verbatim>\<open>scipy.interpolate.interp1d\<close> is a library class, not code of the script. Its two checks
  that can raise here are part of the model: the constructor refuses knot arrays of
  different lengths and fewer than four knots for a cubic, and sorts the knots by \<open>x\<close>;
  a call refuses (with the default \<^verbatim>\<open>bounds_error\<close>) any position below the first or
  above the last knot. The cubic curve it fits is a parameter
  \<open>fit\<close> of the model: \<open>fit xs ys\<close> is the fitted function for the knots \<open>xs\<close>, \<open>ys\<close>.
\<close>

type_synonym fit = "real list \<Rightarrow> real list \<Rightarrow> real \<Rightarrow> real"

record interpolator =
  knots_x :: "real list"
  knots_y :: "real list"

definition interp1d :: "real list \<Rightarrow> real list \<Rightarrow> error + interpolator" where
  "interp1d xs ys =
     (if length xs \<noteq> length ys then Inl ValueError
      else if length xs < 4 then Inl ValueError
      else let knots = sort_key fst (zip xs ys)
           in Inr \<lparr>knots_x = map fst knots, knots_y = map snd knots\<rparr>)"

definition in_domain :: "interpolator \<Rightarrow> real \<Rightarrow> bool" where
  "in_domain ip x \<longleftrightarrow> \<not> (x < hd (knots_x ip)) \<and> \<not> (last (knots_x ip) < x)"

definition call :: "fit \<Rightarrow> interpolator \<Rightarrow> real list \<Rightarrow> error + real list" where
  "call fit ip x_new =
     (if list_all (in_domain ip) x_new
      then Inr (map (fit (knots_x ip) (knots_y ip)) x_new)
      else Inl ValueError)"

subsection \<open>The geometry function\<close>

text \<open>
  Lines 47 and 48: the values of the two module arrays. The script assigns them once and
  never writes into them; a call that reads them from an explicit module state follows
  further down.
\<close>

definition initial_points_x :: "real list" where
  "initial_points_x = linspace (- (1.0 / 10 ^ 6)) (1.0 / 10 ^ 6) 10"

definition initial_points_y :: "real list" where
  "initial_points_y = linspace (0.25 / 10 ^ 6) (0.6 / 10 ^ 6) (length initial_points_x)"

text \<open>The local variables of \<^verbatim>\<open>splitter\<close>, in the order of the source.\<close>

definition points_x :: "error + real list" where
  "points_x =
     (case amin initial_points_x of
        Inl e \<Rightarrow> Inl e
      | Inr lo \<Rightarrow>
          (case amax initial_points_x of
             Inl e \<Rightarrow> Inl e
           | Inr hi \<Rightarrow> Inr ([lo - 0.01 / 10 ^ 6] @ initial_points_x @ [hi + 0.01 / 10 ^ 6])))"

definition points_y :: "real list \<Rightarrow> error + real list" where
  "points_y params =
     (case amin initial_points_y of
        Inl e \<Rightarrow> Inl e
      | Inr lo \<Rightarrow>
          (case amax initial_points_y of
             Inl e \<Rightarrow> Inl e
           | Inr hi \<Rightarrow> Inr ([lo] @ params @ [hi])))"

definition n_interpolation_points :: nat where
  "n_interpolation_points = 100"

definition polygon_points_x :: "real list \<Rightarrow> error + real list" where
  "polygon_points_x pxs =
     (case amin pxs of
        Inl e \<Rightarrow> Inl e
      | Inr lo \<Rightarrow>
          (case amax pxs of
             Inl e \<Rightarrow> Inl e
           | Inr hi \<Rightarrow> Inr (linspace lo hi n_interpolation_points)))"

definition polygon_points_up :: "real list \<Rightarrow> real list \<Rightarrow> point list" where
  "polygon_points_up sxs sys = map (\<lambda>(x, y). (x, y)) (zip sxs sys)"

definition polygon_points_down :: "real list \<Rightarrow> real list \<Rightarrow> point list" where
  "polygon_points_down sxs sys = map (\<lambda>(x, y). (x, - y)) (zip sxs sys)"

definition splitter :: "fit \<Rightarrow> real list \<Rightarrow> error + point list" where
  "splitter fit params =
     (case points_x of
        Inl e \<Rightarrow> Inl e
      | Inr pxs \<Rightarrow>
     (case points_y params of
        Inl e \<Rightarrow> Inl e
      | Inr pys \<Rightarrow>
     (case polygon_points_x pxs of
        Inl e \<Rightarrow> Inl e
      | Inr sxs \<Rightarrow>
     (case interp1d pxs pys of
        Inl e \<Rightarrow> Inl e
      | Inr ip \<Rightarrow>
     (case call fit ip sxs of
        Inl e \<Rightarrow> Inl e
      | Inr sys \<Rightarrow>
          Inr (rev (polygon_points_up sxs sys) @ polygon_points_down sxs sys))))))"

text \<open>Line 71: one pair of bounds for each parameter.\<close>

definition bounds :: "(real \<times> real) list" where
  "bounds = replicate (length initial_points_y) (0.2 / 10 ^ 6, 0.8 / 10 ^ 6)"

definition within_bounds :: "real list \<Rightarrow> bool" where
  "within_bounds params \<longleftrightarrow>
     length params = length bounds \<and>
     list_all (\<lambda>(p, (lo, hi)). lo \<le> p \<and> p \<le> hi) (zip params bounds)"

subsection \<open>A call of the geometry function on the module state\<close>






subsection \<open>Orientation of a polygon\<close>

text \<open>
  The signed area of the closed polygon with the given vertices (the shoelace formula,
  with the closing edge from the last vertex back to the first): positive for a
  counter-clockwise outline.
\<close>

definition cross :: "point \<Rightarrow> point \<Rightarrow> real" where
  "cross p q = fst p * snd q - fst q * snd p"

fun edge_sum :: "point list \<Rightarrow> real" where
  "edge_sum (p # q # ps) = cross p q + edge_sum (q # ps)"
| "edge_sum _ = 0"

definition shoelace :: "point list \<Rightarrow> real" where
  "shoelace ps = (if ps = [] then 0 else (edge_sum ps + cross (last ps) (hd ps)) / 2)"

text \<open>The trapezoid sum under a sampled curve, from its first sample to its last.\<close>

fun trapezoids :: "point list \<Rightarrow> real" where
  "trapezoids (p # q # ps) = (fst q - fst p) * (snd p + snd q) + trapezoids (q # ps)"
| "trapezoids _ = 0"

subsection \<open>The geometry as the specification words it\<close>

text \<open>
  Two fixed boundary points at the guide ends are added to the ten knots, a curve is
  fitted through the twelve points, it is sampled at 100 evenly spaced positions between
  the boundary points, the samples are mirrored about \<open>y = 0\<close>, and the upper branch
  reversed is followed by the lower branch.
\<close>

definition spec_knots :: "real list \<Rightarrow> point list" where
  "spec_knots params =
     [(- (1.01 / 10 ^ 6), 0.25 / 10 ^ 6)] @ zip initial_points_x params @
     [(1.01 / 10 ^ 6, 0.6 / 10 ^ 6)]"

definition spec_positions :: "real list" where
  "spec_positions = map (\<lambda>i. - (1.01 / 10 ^ 6) + real i * (2.02 / 10 ^ 6 / 99)) [0..<100]"

definition spec_upper :: "fit \<Rightarrow> real list \<Rightarrow> point list" where
  "spec_upper fit params =
     map (\<lambda>x. (x, fit (map fst (spec_knots params)) (map snd (spec_knots params)) x))
       spec_positions"

definition spec_mirror :: "point list \<Rightarrow> point list" where
  "spec_mirror ps = map (\<lambda>p. (fst p, - snd p)) ps"

definition spec_splitter :: "fit \<Rightarrow> real list \<Rightarrow> point list" where
  "spec_splitter fit params = rev (spec_upper fit params) @ spec_mirror (spec_upper fit params)"

subsection \<open>The interpolation contract and a sample curve\<close>

text \<open>A fitted curve interpolates its knots when it passes through each of them.\<close>

definition interpolates :: "fit \<Rightarrow> real list \<Rightarrow> real list \<Rightarrow> bool" where
  "interpolates fit xs ys \<longleftrightarrow> list_all (\<lambda>(x, y). fit xs ys x = y) (zip xs ys)"

text \<open>
  A concrete interpolating curve, the polygonal line through the knots, for running the
  model on concrete parameter vectors.
\<close>

fun segments :: "real list \<Rightarrow> real list \<Rightarrow> real \<Rightarrow> real" where
  "segments (x0 # x1 # xs) (y0 # y1 # ys) x =
     (if x \<le> x1 \<or> xs = [] \<or> ys = []
      then y0 + (y1 - y0) * ((x - x0) / (x1 - x0))
      else segments (x1 # xs) (y1 # ys) x)"
| "segments _ _ x = 0"

subsection \<open>The cubic spline of the interpolation object\<close>

text \<open>
  The curve that \<^verbatim>\<open>interp1d(..., kind = 'cubic')\<close> fits is the cubic spline through the knots
  with the not-a-knot end conditions: a cubic on each interval between neighbouring knots,
  with continuous first and second derivatives at the inner knots and a continuous third
  derivative at the second knot and at the last but one. It is written in terms of its
  second derivatives at the knots, the moments \<open>ms\<close>: \<open>piece\<close> is the cubic on one interval
  with the given values and second derivatives at its two ends, \<open>spline\<close> takes the piece
  of the interval a position lies in, \<open>smooth\<close> says that the first derivatives of
  neighbouring pieces agree at every inner knot, and \<open>not_a_knot\<close> that the third
  derivatives of the first two pieces agree; \<open>cubic_spline\<close> asks for this at both ends.
\<close>

definition piece :: "real \<Rightarrow> real \<Rightarrow> real \<Rightarrow> real \<Rightarrow> real \<Rightarrow> real \<Rightarrow> real \<Rightarrow> real" where
  "piece x0 x1 y0 y1 m0 m1 x =
     m0 * (x1 - x) ^ 3 / (6 * (x1 - x0)) + m1 * (x - x0) ^ 3 / (6 * (x1 - x0)) +
     (y0 / (x1 - x0) - m0 * (x1 - x0) / 6) * (x1 - x) +
     (y1 / (x1 - x0) - m1 * (x1 - x0) / 6) * (x - x0)"

fun spline :: "real list \<Rightarrow> real list \<Rightarrow> real list \<Rightarrow> real \<Rightarrow> real" where
  "spline (x0 # x1 # xs) (y0 # y1 # ys) (m0 # m1 # ms) x =
     (if x \<le> x1 \<or> xs = [] \<or> ys = [] \<or> ms = []
      then piece x0 x1 y0 y1 m0 m1 x
      else spline (x1 # xs) (y1 # ys) (m1 # ms) x)"
| "spline _ _ _ x = 0"

fun smooth :: "real list \<Rightarrow> real list \<Rightarrow> real list \<Rightarrow> bool" where
  "smooth (x0 # x1 # x2 # xs) (y0 # y1 # y2 # ys) (m0 # m1 # m2 # ms) \<longleftrightarrow>
     (x1 - x0) * m0 + 2 * (x2 - x0) * m1 + (x2 - x1) * m2 =
       6 * ((y2 - y1) / (x2 - x1) - (y1 - y0) / (x1 - x0)) \<and>
     smooth (x1 # x2 # xs) (y1 # y2 # ys) (m1 # m2 # ms)"
| "smooth _ _ _ \<longleftrightarrow> True"

fun not_a_knot :: "real list \<Rightarrow> real list \<Rightarrow> bool" where
  "not_a_knot (x0 # x1 # x2 # xs) (m0 # m1 # m2 # ms) \<longleftrightarrow>
     (m1 - m0) / (x1 - x0) = (m2 - m1) / (x2 - x1)"
| "not_a_knot _ _ \<longleftrightarrow> False"

definition cubic_spline :: "real list \<Rightarrow> real list \<Rightarrow> real list \<Rightarrow> bool" where
  "cubic_spline xs ys ms \<longleftrightarrow>
     length ms = length xs \<and> smooth xs ys ms \<and>
     not_a_knot xs ms \<and> not_a_knot (rev xs) (rev ms)"

text \<open>
  The vector with every parameter at the lower bound, and the moments of the spline
  through its twelve knots.
\<close>

definition low_params :: "real list" where
  "low_params = replicate 10 (0.2 / 10 ^ 6)"

definition low_moments :: "real list" where
  "low_moments =
     [(191674044000000000 / 2511500123), (181329412500000000 / 2511500123),
       (- (48551287500000000 / 2511500123)), (12875737500000000 / 2511500123),
       (- (2951662500000000 / 2511500123)), (- (1069087500000000 / 2511500123)),
       (7228012500000000 / 2511500123), (- (27842962500000000 / 2511500123)),
       (104143837500000000 / 2511500123), (- (388732387500000000 / 2511500123)),
       (1450785712500000000 / 2511500123), (1533564027000000000 / 2511500123)]"

section \<open>The driver: loading, optimising, saving\<close>

subsection \<open>Files and the working directory\<close>

text \<open>
  A directory is the list of its path components from the root. A file holds what
  \<^verbatim>\<open>np.loadtxt\<close> makes of its text: the numbers, or nothing that parses. What
  \<^verbatim>\<open>np.savetxt\<close> writes is read back as the same numbers.
\<close>

datatype content = Numbers "real list" | Unparseable

record world =
  cwd :: "string list"
  files :: "string list \<rightharpoonup> content"
  stdout :: "string list"

fun split_on :: "char \<Rightarrow> string \<Rightarrow> string list" where
  "split_on c [] = [[]]"
| "split_on c (x # xs) =
     (if x = c then [] # split_on c xs
      else (case split_on c xs of
              [] \<Rightarrow> [[x]]
            | w # ws \<Rightarrow> (x # w) # ws))"

definition enter :: "string \<Rightarrow> string list \<Rightarrow> string list" where
  "enter name dir =
     (if name = ''..'' then butlast dir
      else if name = ''.'' \<or> name = [] then dir
      else dir @ [name])"

text \<open>A relative name is resolved against the working directory, as the system does.\<close>

definition resolve :: "string list \<Rightarrow> string \<Rightarrow> string list" where
  "resolve dir name =
     fold enter (split_on CHR ''/'' name) (if take 1 name = ''/'' then [] else dir)"

definition loadtxt :: "world \<Rightarrow> string \<Rightarrow> error + real list" where
  "loadtxt w name =
     (case files w (resolve (cwd w) name) of
        None \<Rightarrow> Inl OSError
      | Some Unparseable \<Rightarrow> Inl ValueError
      | Some (Numbers v) \<Rightarrow> Inr v)"


definition print :: "world \<Rightarrow> string \<Rightarrow> world" where
  "print w line = w\<lparr>stdout := stdout w @ [line]\<rparr>"

subsection \<open>The script\<close>

text \<open>Lines 74 to 78: any exception of \<^verbatim>\<open>np.loadtxt\<close> is caught.\<close>

definition prev_results :: "world \<Rightarrow> real list \<times> world" where
  "prev_results w =
     (case loadtxt w ''2D_parameters.txt'' of
        Inr loaded \<Rightarrow> (loaded, w)
      | Inl e \<Rightarrow>
          (initial_points_y,
           print w (''Couldn't find the file containing 2D optimization parameters. '' @
                    ''Starting with default parameters'')))"

text \<open>
  Lines 86 to 93: the arguments handed to \<^verbatim>\<open>FunctionDefinedPolygon\<close> (the two materials
  are left out).
\<close>

record polygon =
  func :: "real list \<Rightarrow> error + point list"
  initial_params :: "real list"
  param_bounds :: "(real \<times> real) list"
  z :: real
  depth :: real
  edge_precision :: nat
  dx :: real

definition polygon :: "fit \<Rightarrow> real list \<Rightarrow> polygon" where
  "polygon fit prev =
     \<lparr>func = splitter fit, initial_params = prev, param_bounds = bounds, z = 0.0,
      depth = 220.0 / 10 ^ 9, edge_precision = 5, dx = 1.0 / 10 ^ 9\<rparr>"

text \<open>
  What happens to the geometry up to the end of \<^verbatim>\<open>opt.run()\<close> (lines 86 to 125) belongs
  to the external engine: \<open>run\<close> takes the geometry and the world, and either fails or
  returns the result tuple (best figure of merit, best parameters) and the world it leaves
  behind, working directory included.
\<close>

type_synonym optimization = "polygon \<Rightarrow> world \<Rightarrow> error + ((real \<times> real list) \<times> world)"


subsection \<open>Sample worlds and sample optimisation runs\<close>

text \<open>A directory without a parameters file, one with a garbled file, one with a short file.\<close>

definition w_absent :: world where
  "w_absent = \<lparr>cwd = [''home'', ''y branch''], files = Map.empty, stdout = []\<rparr>"

definition w_garbled :: world where
  "w_garbled =
     \<lparr>cwd = [''home'', ''y branch''],
      files = [[''home'', ''y branch'', ''2D_parameters.txt''] \<mapsto> Unparseable],
      stdout = []\<rparr>"

definition w_short :: world where
  "w_short =
     \<lparr>cwd = [''home'', ''y branch''],
      files = [[''home'', ''y branch'', ''2D_parameters.txt''] \<mapsto> Numbers [1, 2, 3]],
      stdout = []\<rparr>"



section \<open>Properties of the helpers\<close>

subsection \<open>Evenly spaced positions\<close>

lemma length_linspace [simp]: "length (linspace a b n) = n"
  by (simp add: linspace_def)

lemma linspace_map:
  "linspace a b n = map (\<lambda>i. a + real i * ((b - a) / real (n - 1))) [0..<n]"
proof (cases "n < 2")
  case True
  then have "n = 0 \<or> n = 1" by arith
  then show ?thesis by (auto simp: linspace_def)
next
  case False
  then obtain m where m: "n = Suc (Suc m)" by (metis Suc_leI not_less numeral_2_eq_2 le_Suc_ex add_Suc plus_nat.add_0 not_less_eq_eq less_Suc_eq_0_disj)
  show ?thesis by (simp add: linspace_def m field_simps)
qed

lemma nth_linspace:
  "i < n \<Longrightarrow> linspace a b n ! i = a + real i * ((b - a) / real (n - 1))"
  by (simp add: linspace_map)

lemma linspace_lower: "a \<le> b \<Longrightarrow> x \<in> set (linspace a b n) \<Longrightarrow> a \<le> x"
  by (auto simp: linspace_map)

lemma linspace_upper:
  assumes "a \<le> b" "x \<in> set (linspace a b n)" shows "x \<le> b"
proof -
  from assms(2) obtain i where i: "i < n" and x: "x = a + real i * ((b - a) / real (n - 1))"
    by (auto simp: linspace_map)
  have "real i \<le> real (n - 1)" using i by simp
  then have "real i * ((b - a) / real (n - 1)) \<le> real (n - 1) * ((b - a) / real (n - 1))"
    using assms(1) by (intro mult_right_mono) auto
  also have "\<dots> \<le> b - a" using assms(1) by (cases "n - 1 = 0") auto
  finally show ?thesis using x by simp
qed

lemma linspace_strict:
  assumes "a < b" shows "sorted_wrt (<) (linspace a b n)"
proof -
  have "a + real i * ((b - a) / real (n - 1)) < a + real j * ((b - a) / real (n - 1))"
    if "i < j" "j < n" for i j
  proof -
    have "2 \<le> n" using that by arith
    then have "0 < (b - a) / real (n - 1)" using assms by simp
    moreover have "real i < real j" using that by simp
    ultimately show ?thesis by (simp only: add_less_cancel_left mult_strict_right_mono)
  qed
  then show ?thesis
    by (simp add: linspace_map sorted_wrt_map sorted_wrt_iff_nth_less)
qed

subsection \<open>The locals of the geometry function\<close>

lemma initial_points_x_eq:
  "initial_points_x = [- (1 / 10^6), - (7 / (9 * 10^6)), - (5 / (9 * 10^6)), - (3 / (9 * 10^6)), - (1 / (9 * 10^6)),
     1 / (9 * 10^6), 3 / (9 * 10^6), 5 / (9 * 10^6), 7 / (9 * 10^6), 1 / 10^6]"
  by (simp add: initial_points_x_def linspace_def upt_rec)

lemma length_initial_points_x [simp]: "length initial_points_x = 10"
  by (simp add: initial_points_x_def)

lemma length_initial_points_y [simp]: "length initial_points_y = 10"
  by (simp add: initial_points_y_def)

lemma points_x_eq:
  "points_x = Inr (- (1.01 / 10^6) # initial_points_x @ [1.01 / 10^6])"
  by (simp add: points_x_def initial_points_x_eq)

lemma initial_points_y_ends:
  "amin initial_points_y = Inr (0.25 / 10^6)" "amax initial_points_y = Inr (0.6 / 10^6)"
  by (simp_all add: initial_points_y_def linspace_def upt_rec)

lemma points_y_eq: "points_y params = Inr (0.25 / 10^6 # params @ [0.6 / 10^6])"
  by (simp add: points_y_def initial_points_y_ends)

lemma polygon_points_x_eq:
  "polygon_points_x (- (1.01 / 10^6) # initial_points_x @ [1.01 / 10^6]) =
     Inr (linspace (- (1.01 / 10^6)) (1.01 / 10^6) 100)"
  by (simp add: polygon_points_x_def initial_points_x_eq n_interpolation_points_def)

lemma sorted_points_x: "sorted (- (1.01 / 10^6) # initial_points_x @ [1.01 / 10^6])"
  by (simp add: initial_points_x_eq)

lemma interp1d_eq:
  assumes "length params = 10"
  shows "interp1d (- (1.01 / 10^6) # initial_points_x @ [1.01 / 10^6]) (0.25 / 10^6 # params @ [0.6 / 10^6]) =
    Inr \<lparr>knots_x = - (1.01 / 10^6) # initial_points_x @ [1.01 / 10^6], knots_y = 0.25 / 10^6 # params @ [0.6 / 10^6]\<rparr>"
proof -
  let ?xs = "- (1.01 / 10^6) # initial_points_x @ [1.01 / 10^6]"
  let ?ys = "0.25 / 10^6 # params @ [0.6 / 10^6]"
  have len: "length ?xs = length ?ys" using assms by simp
  have "sorted (map fst (zip ?xs ?ys))" using len sorted_points_x by (simp only: map_fst_zip)
  then have "sort_key fst (zip ?xs ?ys) = zip ?xs ?ys" by (rule sort_key_id_if_sorted)
  then show ?thesis using len assms by (simp add: interp1d_def Let_def del: zip_Cons_Cons)
qed

lemma interp1d_err:
  assumes "length params \<noteq> 10"
  shows "interp1d (- (1.01 / 10^6) # initial_points_x @ [1.01 / 10^6]) (0.25 / 10^6 # params @ [0.6 / 10^6]) = Inl ValueError"
  using assms by (simp add: interp1d_def)

lemma call_eq:
  "call fit \<lparr>knots_x = - (1.01 / 10^6) # initial_points_x @ [1.01 / 10^6], knots_y = ys\<rparr>
      (linspace (- (1.01 / 10^6)) (1.01 / 10^6) 100) =
   Inr (map (fit (- (1.01 / 10^6) # initial_points_x @ [1.01 / 10^6]) ys) (linspace (- (1.01 / 10^6)) (1.01 / 10^6) 100))"
proof -
  have "in_domain \<lparr>knots_x = - (1.01 / 10^6) # initial_points_x @ [1.01 / 10^6], knots_y = ys\<rparr> x"
    if "x \<in> set (linspace (- (1.01 / 10^6)) (1.01 / 10^6) 100)" for x
    using linspace_lower[OF _ that] linspace_upper[OF _ that] by (simp add: in_domain_def not_less)
  then show ?thesis by (simp add: call_def list_all_iff)
qed

lemma splitter_eq:
  assumes "length params = 10"
  shows "splitter fit params =
    Inr (rev (polygon_points_up (linspace (- (1.01 / 10^6)) (1.01 / 10^6) 100)
           (map (fit (- (1.01 / 10^6) # initial_points_x @ [1.01 / 10^6]) (0.25 / 10^6 # params @ [0.6 / 10^6]))
              (linspace (- (1.01 / 10^6)) (1.01 / 10^6) 100)))
       @ polygon_points_down (linspace (- (1.01 / 10^6)) (1.01 / 10^6) 100)
           (map (fit (- (1.01 / 10^6) # initial_points_x @ [1.01 / 10^6]) (0.25 / 10^6 # params @ [0.6 / 10^6]))
              (linspace (- (1.01 / 10^6)) (1.01 / 10^6) 100)))"
  unfolding splitter_def
  by (simp only: points_x_eq points_y_eq polygon_points_x_eq interp1d_eq[OF assms] call_eq sum.case)

lemma splitter_err:
  assumes "length params \<noteq> 10"
  shows "splitter fit params = Inl ValueError"
  unfolding splitter_def
  by (simp only: points_x_eq points_y_eq polygon_points_x_eq interp1d_err[OF assms] sum.case)

subsection \<open>Outlines and their signed area\<close>

lemma polygon_points_up_zip: "polygon_points_up xs ys = zip xs ys"
  by (simp add: polygon_points_up_def)

lemma polygon_points_down_zip: "polygon_points_down xs ys = map (\<lambda>p. (fst p, - snd p)) (zip xs ys)"
  by (simp add: polygon_points_down_def case_prod_beta)

lemma nth_rev_append_mirror:
  fixes up :: "point list"
  assumes "i < 2 * length up"
  shows "(rev up @ map (\<lambda>p. (fst p, - snd p)) up) ! (2 * length up - 1 - i) =
         (fst ((rev up @ map (\<lambda>p. (fst p, - snd p)) up) ! i), - snd ((rev up @ map (\<lambda>p. (fst p, - snd p)) up) ! i))"
proof (cases "i < length up")
  case True
  then have a: "(rev up @ map (\<lambda>p. (fst p, - snd p)) up) ! i = up ! (length up - 1 - i)"
    by (simp add: nth_append rev_nth)
  have b: "2 * length up - 1 - i - length up = length up - 1 - i" using True by arith
  have c: "\<not> 2 * length up - 1 - i < length up" using True by arith
  have d: "length up - 1 - i < length up" using True by arith
  show ?thesis unfolding a using c d by (simp add: nth_append b)
next
  case False
  then have a: "(rev up @ map (\<lambda>p. (fst p, - snd p)) up) ! i = (\<lambda>p. (fst p, - snd p)) (up ! (i - length up))"
    using assms by (simp add: nth_append)
  have c: "2 * length up - 1 - i < length up" using False assms by arith
  have b: "length up - Suc (2 * length up - Suc i) = i - length up" using False assms by arith
  have c': "2 * length up - Suc i < length up" using c by simp
  show ?thesis unfolding a using c' by (simp add: nth_append rev_nth b)
qed

lemma edge_sum_append:
  "as \<noteq> [] \<Longrightarrow> bs \<noteq> [] \<Longrightarrow> edge_sum (as @ bs) = edge_sum as + cross (last as) (hd bs) + edge_sum bs"
  by (induction as rule: edge_sum.induct) (auto simp: neq_Nil_conv)

lemma cross_swap: "cross q p = - cross p q"
  by (simp add: cross_def)

lemma edge_sum_rev: "edge_sum (rev ps) = - edge_sum ps"
proof (induction ps rule: edge_sum.induct)
  case (1 p q ps)
  have "edge_sum (rev (p # q # ps)) = edge_sum (rev (q # ps) @ [p])" by simp
  also have "\<dots> = edge_sum (rev (q # ps)) + cross (last (rev (q # ps))) p"
    by (subst edge_sum_append) auto
  also have "last (rev (q # ps)) = q" by (simp add: last_rev)
  finally show ?case using 1 by (simp add: cross_swap[of q p])
qed auto

lemma edge_sum_mirror: "edge_sum (map (\<lambda>p. (fst p, - snd p)) ps) = - edge_sum ps"
  by (induction ps rule: edge_sum.induct) (auto simp: cross_def)

lemma trapezoids_edge_sum:
  "ps \<noteq> [] \<Longrightarrow> trapezoids ps = fst (last ps) * snd (last ps) - fst (hd ps) * snd (hd ps) - edge_sum ps"
  by (induction ps rule: edge_sum.induct) (auto simp: cross_def algebra_simps)

lemma shoelace_outline:
  assumes "up \<noteq> []"
  shows "shoelace (rev up @ map (\<lambda>p. (fst p, - snd p)) up) = trapezoids up"
proof -
  let ?m = "\<lambda>p::point. (fst p, - snd p)"
  have e: "edge_sum (rev up @ map ?m up) = - edge_sum up + cross (hd up) (?m (hd up)) - edge_sum up"
    using assms by (subst edge_sum_append) (auto simp: edge_sum_rev edge_sum_mirror last_rev hd_map)
  have l: "last (rev up @ map ?m up) = ?m (last up)" using assms by (simp add: last_map)
  have h: "hd (rev up @ map ?m up) = last up" using assms by (simp add: hd_rev)
  have "edge_sum (rev up @ map ?m up) + cross (last (rev up @ map ?m up)) (hd (rev up @ map ?m up)) =
          2 * trapezoids up"
    unfolding e l h trapezoids_edge_sum[OF assms] by (simp add: cross_def algebra_simps)
  then show ?thesis using assms by (simp add: shoelace_def)
qed

lemma trapezoids_pos:
  "2 \<le> length ps \<Longrightarrow> sorted_wrt (<) (map fst ps) \<Longrightarrow> \<forall>p \<in> set ps. 0 < snd p \<Longrightarrow> 0 < trapezoids ps"
proof (induction ps rule: trapezoids.induct)
  case (1 p q ps)
  have a: "0 < (fst q - fst p) * (snd p + snd q)" using 1(3,4) by (intro mult_pos_pos) auto
  show ?case
  proof (cases ps)
    case Nil
    then show ?thesis using a by simp
  next
    case (Cons r rs)
    then have "0 < trapezoids (q # ps)" using 1 by simp
    then show ?thesis using a by simp
  qed
qed auto

subsection \<open>Paths and loading\<close>

lemma resolve_same_dir: "resolve dir ''2D_parameters.txt'' = dir @ [''2D_parameters.txt'']"
  by (simp add: resolve_def enter_def)


lemma prev_results_fail:
  "loadtxt w ''2D_parameters.txt'' = Inl e \<Longrightarrow>
   prev_results w = (initial_points_y, print w (''Couldn't find the file containing 2D optimization parameters. '' @
                    ''Starting with default parameters''))"
  by (simp add: prev_results_def)

lemma prev_results_ok:
  "loadtxt w ''2D_parameters.txt'' = Inr v \<Longrightarrow> prev_results w = (v, w)"
  by (simp add: prev_results_def)

lemma initial_points_y_linspace: "initial_points_y = linspace (0.25 / 10 ^ 6) (0.6 / 10 ^ 6) 10"
  by (simp add: initial_points_y_def)

lemma loadtxt_cases:
  "loadtxt w name = Inl OSError \<longleftrightarrow> files w (resolve (cwd w) name) = None"
  "loadtxt w name = Inl ValueError \<longleftrightarrow> files w (resolve (cwd w) name) = Some Unparseable"
  "loadtxt w name = Inr v \<longleftrightarrow> files w (resolve (cwd w) name) = Some (Numbers v)"
  by (auto simp: loadtxt_def split: option.splits content.splits)

subsection \<open>The outline in closed form\<close>

lemma splitter_outline:
  assumes "length params = 10"
  shows "splitter fit params =
    Inr (rev (zip (linspace (- (1.01 / 10^6)) (1.01 / 10^6) 100)
           (map (fit (- (1.01 / 10^6) # initial_points_x @ [1.01 / 10^6]) (0.25 / 10^6 # params @ [0.6 / 10^6]))
              (linspace (- (1.01 / 10^6)) (1.01 / 10^6) 100)))
       @ map (\<lambda>p. (fst p, - snd p)) (zip (linspace (- (1.01 / 10^6)) (1.01 / 10^6) 100)
           (map (fit (- (1.01 / 10^6) # initial_points_x @ [1.01 / 10^6]) (0.25 / 10^6 # params @ [0.6 / 10^6]))
              (linspace (- (1.01 / 10^6)) (1.01 / 10^6) 100))))"
  by (simp only: splitter_eq[OF assms] polygon_points_up_zip polygon_points_down_zip)

lemma zip_map_same: "zip xs (map f xs) = map (\<lambda>x. (x, f x)) xs"
  by (induction xs) auto

lemma spec_positions_linspace: "spec_positions = linspace (- (1.01 / 10^6)) (1.01 / 10^6) 100"
  by (simp add: spec_positions_def linspace_map)

lemma spec_knots_fst: "length params = 10 \<Longrightarrow> map fst (spec_knots params) = - (1.01 / 10^6) # initial_points_x @ [1.01 / 10^6]"
  by (simp add: spec_knots_def)

lemma spec_knots_snd: "length params = 10 \<Longrightarrow> map snd (spec_knots params) = 0.25 / 10^6 # params @ [0.6 / 10^6]"
  by (simp add: spec_knots_def)

lemma within_bounds_length: "within_bounds params \<Longrightarrow> length params = 10"
  by (simp add: within_bounds_def bounds_def)

lemma within_bounds_initial: "within_bounds initial_points_y"
  by (simp add: within_bounds_def bounds_def initial_points_y_linspace linspace_def upt_rec eval_nat_numeral)


subsection \<open>The sample curve\<close>

lemma initial_points_y_eq:
  "initial_points_y = [0.25 / 10^6, 0.25 / 10^6 + 0.35 / (9 * 10^6), 0.25 / 10^6 + 2 * 0.35 / (9 * 10^6),
     0.25 / 10^6 + 3 * 0.35 / (9 * 10^6), 0.25 / 10^6 + 4 * 0.35 / (9 * 10^6), 0.25 / 10^6 + 5 * 0.35 / (9 * 10^6),
     0.25 / 10^6 + 6 * 0.35 / (9 * 10^6), 0.25 / 10^6 + 7 * 0.35 / (9 * 10^6), 0.25 / 10^6 + 8 * 0.35 / (9 * 10^6), 0.6 / 10^6]"
  by (simp add: initial_points_y_linspace linspace_def upt_rec)

lemma interpolates_segments_initial:
  "interpolates segments (- (1.01 / 10^6) # initial_points_x @ [1.01 / 10^6]) (0.25 / 10^6 # initial_points_y @ [0.6 / 10^6])"
  by (simp add: interpolates_def initial_points_x_eq initial_points_y_eq)

subsection \<open>The sampled positions and the corners of the outline\<close>

lemma Min_points_x: "Min (set (- (1.01 / 10^6) # initial_points_x @ [1.01 / 10^6])) = - (1.01 / 10^6)"
  by (simp add: initial_points_x_eq)

lemma Max_points_x: "Max (set (- (1.01 / 10^6) # initial_points_x @ [1.01 / 10^6])) = 1.01 / 10^6"
  by (simp add: initial_points_x_eq)

lemma samples_within:
  assumes "x \<in> set (linspace (- (1.01 / 10 ^ 6)) (1.01 / 10 ^ 6) 100)"
  shows "- (1.01 / 10 ^ 6) \<le> x" and "x \<le> 1.01 / 10 ^ 6"
proof -
  have le: "- (1.01 / 10 ^ 6) \<le> (1.01 / 10 ^ 6 :: real)" by simp
  show "- (1.01 / 10 ^ 6) \<le> x" by (rule linspace_lower[OF le assms])
  show "x \<le> 1.01 / 10 ^ 6" by (rule linspace_upper[OF le assms])
qed

lemma sample_ends:
  "linspace (- (1.01 / 10 ^ 6)) (1.01 / 10 ^ 6) 100 ! 0 = - (1.01 / 10 ^ 6)"
  "linspace (- (1.01 / 10 ^ 6)) (1.01 / 10 ^ 6) 100 ! 99 = 1.01 / 10 ^ 6"
  by (simp_all add: nth_linspace)

lemma outline_corners:
  fixes up :: "point list"
  assumes "length up = 100"
  shows "(rev up @ map m up) ! 0 = up ! 99" "(rev up @ map m up) ! 99 = up ! 0"
    "(rev up @ map m up) ! 100 = m (up ! 0)" "(rev up @ map m up) ! 199 = m (up ! 99)"
  using assms by (simp_all add: nth_append rev_nth)

subsection \<open>The sample worlds\<close>

lemma loadtxt_absent: "loadtxt w_absent ''2D_parameters.txt'' = Inl OSError"
  by (simp add: loadtxt_def w_absent_def)

lemma loadtxt_garbled: "loadtxt w_garbled ''2D_parameters.txt'' = Inl ValueError"
  by (simp add: loadtxt_def w_garbled_def resolve_same_dir)

lemma loadtxt_short: "loadtxt w_short ''2D_parameters.txt'' = Inr [1, 2, 3]"
  by (simp add: loadtxt_def w_short_def resolve_same_dir)



subsection \<open>Calls on the module state\<close>




subsection \<open>The cubic spline: its samples and the area under them\<close>

text \<open>
  The 100 sampled positions and the twelve knot positions, written out; the samples
  interval by interval; and the sum of the samples of each interval, which is linear in
  the values and the moments at the two ends of the interval.
\<close>

lemma sx_explicit:
  "linspace (- (1.01 / 10 ^ 6)) (1.01 / 10 ^ 6) 100 =
     [(- (101 / 100000000)), (- (9797 / 9900000000)), (- (1919 / 1980000000)),
       (- (3131 / 3300000000)), (- (9191 / 9900000000)), (- (8989 / 9900000000)),
       (- (2929 / 3300000000)), (- (1717 / 1980000000)), (- (8383 / 9900000000)),
       (- (909 / 1100000000)), (- (7979 / 9900000000)), (- (707 / 900000000)), (- (101 / 132000000)),
       (- (7373 / 9900000000)), (- (7171 / 9900000000)), (- (2323 / 3300000000)),
       (- (6767 / 9900000000)), (- (1313 / 1980000000)), (- (707 / 1100000000)),
       (- (6161 / 9900000000)), (- (5959 / 9900000000)), (- (1919 / 3300000000)),
       (- (101 / 180000000)), (- (5353 / 9900000000)), (- (1717 / 3300000000)),
       (- (4949 / 9900000000)), (- (4747 / 9900000000)), (- (101 / 220000000)),
       (- (4343 / 9900000000)), (- (4141 / 9900000000)), (- (1313 / 3300000000)),
       (- (3737 / 9900000000)), (- (707 / 1980000000)), (- (101 / 300000000)),
       (- (3131 / 9900000000)), (- (2929 / 9900000000)), (- (303 / 1100000000)),
       (- (101 / 396000000)), (- (2323 / 9900000000)), (- (707 / 3300000000)),
       (- (1919 / 9900000000)), (- (1717 / 9900000000)), (- (101 / 660000000)),
       (- (1313 / 9900000000)), (- (101 / 900000000)), (- (101 / 1100000000)),
       (- (707 / 9900000000)), (- (101 / 1980000000)), (- (101 / 3300000000)),
       (- (101 / 9900000000)), (101 / 9900000000), (101 / 3300000000), (101 / 1980000000),
       (707 / 9900000000), (101 / 1100000000), (101 / 900000000), (1313 / 9900000000),
       (101 / 660000000), (1717 / 9900000000), (1919 / 9900000000), (707 / 3300000000),
       (2323 / 9900000000), (101 / 396000000), (303 / 1100000000), (2929 / 9900000000),
       (3131 / 9900000000), (101 / 300000000), (707 / 1980000000), (3737 / 9900000000),
       (1313 / 3300000000), (4141 / 9900000000), (4343 / 9900000000), (101 / 220000000),
       (4747 / 9900000000), (4949 / 9900000000), (1717 / 3300000000), (5353 / 9900000000),
       (101 / 180000000), (1919 / 3300000000), (5959 / 9900000000), (6161 / 9900000000),
       (707 / 1100000000), (1313 / 1980000000), (6767 / 9900000000), (2323 / 3300000000),
       (7171 / 9900000000), (7373 / 9900000000), (101 / 132000000), (707 / 900000000),
       (7979 / 9900000000), (909 / 1100000000), (8383 / 9900000000), (1717 / 1980000000),
       (2929 / 3300000000), (8989 / 9900000000), (9191 / 9900000000), (3131 / 3300000000),
       (1919 / 1980000000), (9797 / 9900000000), (101 / 100000000)]"
  by (simp add: linspace_def upt_rec)

lemma px_explicit:
  "- (1.01 / 10 ^ 6) # initial_points_x @ [1.01 / 10 ^ 6] =
     [(- (101 / 100000000)), (- (1 / 1000000)), (- (7 / 9000000)), (- (1 / 1800000)),
       (- (1 / 3000000)), (- (1 / 9000000)), (1 / 9000000), (1 / 3000000), (1 / 1800000),
       (7 / 9000000), (1 / 1000000), (101 / 100000000)]"
  by (simp add: initial_points_x_eq)

lemma spline_pieces:
  "map (spline [(- (101 / 100000000)), (- (1 / 1000000)), (- (7 / 9000000)), (- (1 / 1800000)),
    (- (1 / 3000000)), (- (1 / 9000000)), (1 / 9000000), (1 / 3000000), (1 / 1800000), (7 / 9000000),
    (1 / 1000000), (101 / 100000000)] [y0, y1, y2, y3, y4, y5, y6, y7, y8, y9, y10, y11] [m0, m1, m2,
    m3, m4, m5, m6, m7, m8, m9, m10, m11]) [(- (101 / 100000000)), (- (9797 / 9900000000)),
    (- (1919 / 1980000000)), (- (3131 / 3300000000)), (- (9191 / 9900000000)),
    (- (8989 / 9900000000)), (- (2929 / 3300000000)), (- (1717 / 1980000000)),
    (- (8383 / 9900000000)), (- (909 / 1100000000)), (- (7979 / 9900000000)), (- (707 / 900000000)),
    (- (101 / 132000000)), (- (7373 / 9900000000)), (- (7171 / 9900000000)), (- (2323 / 3300000000)),
    (- (6767 / 9900000000)), (- (1313 / 1980000000)), (- (707 / 1100000000)),
    (- (6161 / 9900000000)), (- (5959 / 9900000000)), (- (1919 / 3300000000)), (- (101 / 180000000)),
    (- (5353 / 9900000000)), (- (1717 / 3300000000)), (- (4949 / 9900000000)),
    (- (4747 / 9900000000)), (- (101 / 220000000)), (- (4343 / 9900000000)), (- (4141 / 9900000000)),
    (- (1313 / 3300000000)), (- (3737 / 9900000000)), (- (707 / 1980000000)), (- (101 / 300000000)),
    (- (3131 / 9900000000)), (- (2929 / 9900000000)), (- (303 / 1100000000)), (- (101 / 396000000)),
    (- (2323 / 9900000000)), (- (707 / 3300000000)), (- (1919 / 9900000000)),
    (- (1717 / 9900000000)), (- (101 / 660000000)), (- (1313 / 9900000000)), (- (101 / 900000000)),
    (- (101 / 1100000000)), (- (707 / 9900000000)), (- (101 / 1980000000)), (- (101 / 3300000000)),
    (- (101 / 9900000000)), (101 / 9900000000), (101 / 3300000000), (101 / 1980000000),
    (707 / 9900000000), (101 / 1100000000), (101 / 900000000), (1313 / 9900000000),
    (101 / 660000000), (1717 / 9900000000), (1919 / 9900000000), (707 / 3300000000),
    (2323 / 9900000000), (101 / 396000000), (303 / 1100000000), (2929 / 9900000000),
    (3131 / 9900000000), (101 / 300000000), (707 / 1980000000), (3737 / 9900000000),
    (1313 / 3300000000), (4141 / 9900000000), (4343 / 9900000000), (101 / 220000000),
    (4747 / 9900000000), (4949 / 9900000000), (1717 / 3300000000), (5353 / 9900000000),
    (101 / 180000000), (1919 / 3300000000), (5959 / 9900000000), (6161 / 9900000000),
    (707 / 1100000000), (1313 / 1980000000), (6767 / 9900000000), (2323 / 3300000000),
    (7171 / 9900000000), (7373 / 9900000000), (101 / 132000000), (707 / 900000000),
    (7979 / 9900000000), (909 / 1100000000), (8383 / 9900000000), (1717 / 1980000000),
    (2929 / 3300000000), (8989 / 9900000000), (9191 / 9900000000), (3131 / 3300000000),
    (1919 / 1980000000), (9797 / 9900000000), (101 / 100000000)] =
     map (piece (- (101 / 100000000)) (- (1 / 1000000)) y0 y1 m0 m1) [(- (101 / 100000000))]
     @ map (piece (- (1 / 1000000)) (- (7 / 9000000)) y1 y2 m1 m2) [(- (9797 / 9900000000)),
       (- (1919 / 1980000000)), (- (3131 / 3300000000)), (- (9191 / 9900000000)),
       (- (8989 / 9900000000)), (- (2929 / 3300000000)), (- (1717 / 1980000000)),
       (- (8383 / 9900000000)), (- (909 / 1100000000)), (- (7979 / 9900000000)),
       (- (707 / 900000000))]
     @ map (piece (- (7 / 9000000)) (- (1 / 1800000)) y2 y3 m2 m3) [(- (101 / 132000000)),
       (- (7373 / 9900000000)), (- (7171 / 9900000000)), (- (2323 / 3300000000)),
       (- (6767 / 9900000000)), (- (1313 / 1980000000)), (- (707 / 1100000000)),
       (- (6161 / 9900000000)), (- (5959 / 9900000000)), (- (1919 / 3300000000)),
       (- (101 / 180000000))]
     @ map (piece (- (1 / 1800000)) (- (1 / 3000000)) y3 y4 m3 m4) [(- (5353 / 9900000000)),
       (- (1717 / 3300000000)), (- (4949 / 9900000000)), (- (4747 / 9900000000)),
       (- (101 / 220000000)), (- (4343 / 9900000000)), (- (4141 / 9900000000)),
       (- (1313 / 3300000000)), (- (3737 / 9900000000)), (- (707 / 1980000000)),
       (- (101 / 300000000))]
     @ map (piece (- (1 / 3000000)) (- (1 / 9000000)) y4 y5 m4 m5) [(- (3131 / 9900000000)),
       (- (2929 / 9900000000)), (- (303 / 1100000000)), (- (101 / 396000000)),
       (- (2323 / 9900000000)), (- (707 / 3300000000)), (- (1919 / 9900000000)),
       (- (1717 / 9900000000)), (- (101 / 660000000)), (- (1313 / 9900000000)),
       (- (101 / 900000000))]
     @ map (piece (- (1 / 9000000)) (1 / 9000000) y5 y6 m5 m6) [(- (101 / 1100000000)),
       (- (707 / 9900000000)), (- (101 / 1980000000)), (- (101 / 3300000000)),
       (- (101 / 9900000000)), (101 / 9900000000), (101 / 3300000000), (101 / 1980000000),
       (707 / 9900000000), (101 / 1100000000)]
     @ map (piece (1 / 9000000) (1 / 3000000) y6 y7 m6 m7) [(101 / 900000000), (1313 / 9900000000),
       (101 / 660000000), (1717 / 9900000000), (1919 / 9900000000), (707 / 3300000000),
       (2323 / 9900000000), (101 / 396000000), (303 / 1100000000), (2929 / 9900000000),
       (3131 / 9900000000)]
     @ map (piece (1 / 3000000) (1 / 1800000) y7 y8 m7 m8) [(101 / 300000000), (707 / 1980000000),
       (3737 / 9900000000), (1313 / 3300000000), (4141 / 9900000000), (4343 / 9900000000),
       (101 / 220000000), (4747 / 9900000000), (4949 / 9900000000), (1717 / 3300000000),
       (5353 / 9900000000)]
     @ map (piece (1 / 1800000) (7 / 9000000) y8 y9 m8 m9) [(101 / 180000000), (1919 / 3300000000),
       (5959 / 9900000000), (6161 / 9900000000), (707 / 1100000000), (1313 / 1980000000),
       (6767 / 9900000000), (2323 / 3300000000), (7171 / 9900000000), (7373 / 9900000000),
       (101 / 132000000)]
     @ map (piece (7 / 9000000) (1 / 1000000) y9 y10 m9 m10) [(707 / 900000000), (7979 / 9900000000),
       (909 / 1100000000), (8383 / 9900000000), (1717 / 1980000000), (2929 / 3300000000),
       (8989 / 9900000000), (9191 / 9900000000), (3131 / 3300000000), (1919 / 1980000000),
       (9797 / 9900000000)]
     @ map (piece (1 / 1000000) (101 / 100000000) y10 y11 m10 m11) [(101 / 100000000)]"
  by simp

lemma piece_sum_0:
  "sum_list (map (piece (- (101 / 100000000)) (- (1 / 1000000)) ya yb ma mb) [(- (101 / 100000000))]) =
     0 * ma + 0 * mb + 1 * ya + 0 * yb"
  by (simp add: piece_def power3_eq_cube algebra_simps)

lemma piece_sum_1:
  "sum_list (map (piece (- (1 / 1000000)) (- (7 / 9000000)) ya yb ma mb) [(- (9797 / 9900000000)),
    (- (1919 / 1980000000)), (- (3131 / 3300000000)), (- (9191 / 9900000000)),
    (- (8989 / 9900000000)), (- (2929 / 3300000000)), (- (1717 / 1980000000)),
    (- (8383 / 9900000000)), (- (909 / 1100000000)), (- (7979 / 9900000000)),
    (- (707 / 900000000))]) =
     (- (26728243 / 1188000000000000000000)) * ma + (- (80173471 / 3564000000000000000000)) * mb + (1087 / 200) * ya + (1113 / 200) * yb"
  by (simp add: piece_def power3_eq_cube algebra_simps)

lemma piece_sum_2:
  "sum_list (map (piece (- (7 / 9000000)) (- (1 / 1800000)) ya yb ma mb) [(- (101 / 132000000)),
    (- (7373 / 9900000000)), (- (7171 / 9900000000)), (- (2323 / 3300000000)),
    (- (6767 / 9900000000)), (- (1313 / 1980000000)), (- (707 / 1100000000)),
    (- (6161 / 9900000000)), (- (5959 / 9900000000)), (- (1919 / 3300000000)),
    (- (101 / 180000000))]) =
     (- (3203591 / 142560000000000000000)) * ma + (- (3202289 / 142560000000000000000)) * mb + (213 / 40) * ya + (227 / 40) * yb"
  by (simp add: piece_def power3_eq_cube algebra_simps)

lemma piece_sum_3:
  "sum_list (map (piece (- (1 / 1800000)) (- (1 / 3000000)) ya yb ma mb) [(- (5353 / 9900000000)),
    (- (1717 / 3300000000)), (- (4949 / 9900000000)), (- (4747 / 9900000000)), (- (101 / 220000000)),
    (- (4343 / 9900000000)), (- (4141 / 9900000000)), (- (1313 / 3300000000)),
    (- (3737 / 9900000000)), (- (707 / 1980000000)), (- (101 / 300000000))]) =
     (- (79901101 / 3564000000000000000000)) * ma + (- (79841099 / 3564000000000000000000)) * mb + (1043 / 200) * ya + (1157 / 200) * yb"
  by (simp add: piece_def power3_eq_cube algebra_simps)

lemma piece_sum_4:
  "sum_list (map (piece (- (1 / 3000000)) (- (1 / 9000000)) ya yb ma mb) [(- (3131 / 9900000000)),
    (- (2929 / 9900000000)), (- (303 / 1100000000)), (- (101 / 396000000)), (- (2323 / 9900000000)),
    (- (707 / 3300000000)), (- (1919 / 9900000000)), (- (1717 / 9900000000)), (- (101 / 660000000)),
    (- (1313 / 9900000000)), (- (101 / 900000000))]) =
     (- (79620643 / 3564000000000000000000)) * ma + (- (26507719 / 1188000000000000000000)) * mb + (1021 / 200) * ya + (1179 / 200) * yb"
  by (simp add: piece_def power3_eq_cube algebra_simps)

lemma piece_sum_5:
  "sum_list (map (piece (- (1 / 9000000)) (1 / 9000000) ya yb ma mb) [(- (101 / 1100000000)),
    (- (707 / 9900000000)), (- (101 / 1980000000)), (- (101 / 3300000000)), (- (101 / 9900000000)),
    (101 / 9900000000), (101 / 3300000000), (101 / 1980000000), (707 / 9900000000),
    (101 / 1100000000)]) =
     (- (79397 / 3564000000000000000)) * ma + (- (79397 / 3564000000000000000)) * mb + 5 * ya + 5 * yb"
  by (simp add: piece_def power3_eq_cube algebra_simps)

lemma piece_sum_6:
  "sum_list (map (piece (1 / 9000000) (1 / 3000000) ya yb ma mb) [(101 / 900000000),
    (1313 / 9900000000), (101 / 660000000), (1717 / 9900000000), (1919 / 9900000000),
    (707 / 3300000000), (2323 / 9900000000), (101 / 396000000), (303 / 1100000000),
    (2929 / 9900000000), (3131 / 9900000000)]) =
     (- (26507719 / 1188000000000000000000)) * ma + (- (79620643 / 3564000000000000000000)) * mb + (1179 / 200) * ya + (1021 / 200) * yb"
  by (simp add: piece_def power3_eq_cube algebra_simps)

lemma piece_sum_7:
  "sum_list (map (piece (1 / 3000000) (1 / 1800000) ya yb ma mb) [(101 / 300000000),
    (707 / 1980000000), (3737 / 9900000000), (1313 / 3300000000), (4141 / 9900000000),
    (4343 / 9900000000), (101 / 220000000), (4747 / 9900000000), (4949 / 9900000000),
    (1717 / 3300000000), (5353 / 9900000000)]) =
     (- (79841099 / 3564000000000000000000)) * ma + (- (79901101 / 3564000000000000000000)) * mb + (1157 / 200) * ya + (1043 / 200) * yb"
  by (simp add: piece_def power3_eq_cube algebra_simps)

lemma piece_sum_8:
  "sum_list (map (piece (1 / 1800000) (7 / 9000000) ya yb ma mb) [(101 / 180000000),
    (1919 / 3300000000), (5959 / 9900000000), (6161 / 9900000000), (707 / 1100000000),
    (1313 / 1980000000), (6767 / 9900000000), (2323 / 3300000000), (7171 / 9900000000),
    (7373 / 9900000000), (101 / 132000000)]) =
     (- (3202289 / 142560000000000000000)) * ma + (- (3203591 / 142560000000000000000)) * mb + (227 / 40) * ya + (213 / 40) * yb"
  by (simp add: piece_def power3_eq_cube algebra_simps)

lemma piece_sum_9:
  "sum_list (map (piece (7 / 9000000) (1 / 1000000) ya yb ma mb) [(707 / 900000000),
    (7979 / 9900000000), (909 / 1100000000), (8383 / 9900000000), (1717 / 1980000000),
    (2929 / 3300000000), (8989 / 9900000000), (9191 / 9900000000), (3131 / 3300000000),
    (1919 / 1980000000), (9797 / 9900000000)]) =
     (- (80173471 / 3564000000000000000000)) * ma + (- (26728243 / 1188000000000000000000)) * mb + (1113 / 200) * ya + (1087 / 200) * yb"
  by (simp add: piece_def power3_eq_cube algebra_simps)

lemma piece_sum_10:
  "sum_list (map (piece (1 / 1000000) (101 / 100000000) ya yb ma mb) [(101 / 100000000)]) =
     0 * ma + 0 * mb + 0 * ya + 1 * yb"
  by (simp add: piece_def power3_eq_cube algebra_simps)

lemma list12:
  "length (xs :: real list) = 12 \<Longrightarrow>
     \<exists>a0 a1 a2 a3 a4 a5 a6 a7 a8 a9 a10 a11. xs = [a0, a1, a2, a3, a4, a5, a6, a7, a8, a9,
       a10, a11]"
  by (auto simp: length_Suc_conv eval_nat_numeral)

lemma list10:
  "length (xs :: real list) = 10 \<Longrightarrow>
     \<exists>a1 a2 a3 a4 a5 a6 a7 a8 a9 a10. xs = [a1, a2, a3, a4, a5, a6, a7, a8, a9, a10]"
  by (auto simp: length_Suc_conv eval_nat_numeral)

lemma trapezoids_even:
  "length xs = length ys \<Longrightarrow> ys \<noteq> [] \<Longrightarrow>
   (\<forall>i. Suc i < length xs \<longrightarrow> xs ! Suc i - xs ! i = h) \<Longrightarrow>
   trapezoids (zip xs ys) = h * (2 * sum_list ys - hd ys - last ys)"
proof (induction xs ys rule: list_induct2)
  case Nil
  then show ?case by simp
next
  case (Cons x xs y ys)
  show ?case
  proof (cases ys)
    case Nil
    then show ?thesis using Cons by simp
  next
    case ys: (Cons y' ys')
    then obtain x' xs' where xs: "xs = x' # xs'" using Cons(1) by (cases xs) auto
    have d: "x' - x = h" using Cons(4) xs by auto
    have "\<forall>i. Suc i < length xs \<longrightarrow> xs ! Suc i - xs ! i = h"
      using Cons(4) by auto
    then have ih: "trapezoids (zip xs ys) = h * (2 * sum_list ys - hd ys - last ys)"
      using Cons(2) ys by simp
    have "trapezoids (zip (x # xs) (y # ys)) = (x' - x) * (y + y') + trapezoids (zip xs ys)"
      unfolding xs ys by simp
    then show ?thesis unfolding ih d using ys by (simp add: algebra_simps)
  qed
qed

lemma trapezoids_linspace:
  assumes "length ys = n" and "0 < n"
  shows "trapezoids (zip (linspace a b n) ys) =
     (b - a) / real (n - 1) * (2 * sum_list ys - hd ys - last ys)"
proof (rule trapezoids_even)
  show "length (linspace a b n) = length ys" using assms by simp
  show "ys \<noteq> []" using assms by auto
  show "\<forall>i. Suc i < length (linspace a b n) \<longrightarrow>
      linspace a b n ! Suc i - linspace a b n ! i = (b - a) / real (n - 1)"
  proof (intro allI impI)
    fix i assume "Suc i < length (linspace a b n)"
    then have i: "Suc i < n" "i < n" by simp_all
    have "a + real (Suc i) * H - (a + real i * H) = H" for H :: real
      by (simp add: algebra_simps)
    then show "linspace a b n ! Suc i - linspace a b n ! i = (b - a) / real (n - 1)"
      unfolding nth_linspace[OF i(1)] nth_linspace[OF i(2)] .
  qed
qed

lemma spline_equations:
  assumes "cubic_spline [(- (101 / 100000000)), (- (1 / 1000000)), (- (7 / 9000000)),
    (- (1 / 1800000)), (- (1 / 3000000)), (- (1 / 9000000)), (1 / 9000000), (1 / 3000000),
    (1 / 1800000), (7 / 9000000), (1 / 1000000), (101 / 100000000)]
     [y0, y1, y2, y3, y4, y5, y6, y7, y8, y9, y10, y11]
     [m0, m1, m2, m3, m4, m5, m6, m7, m8, m9, m10, m11]"
  shows "(m1 - m0) / ((- (1 / 1000000)) - (- (101 / 100000000))) =
       (m2 - m1) / ((- (7 / 9000000)) - (- (1 / 1000000)))"
    and "((- (1 / 1000000)) - (- (101 / 100000000))) * m0 + 2 * ((- (7 / 9000000)) - (- (101 / 100000000))) * m1 + ((- (7 / 9000000)) - (- (1 / 1000000))) * m2 =
       6 * ((y2 - y1) / ((- (7 / 9000000)) - (- (1 / 1000000))) - (y1 - y0) / ((- (1 / 1000000)) - (- (101 / 100000000))))"
    and "((- (7 / 9000000)) - (- (1 / 1000000))) * m1 + 2 * ((- (1 / 1800000)) - (- (1 / 1000000))) * m2 + ((- (1 / 1800000)) - (- (7 / 9000000))) * m3 =
       6 * ((y3 - y2) / ((- (1 / 1800000)) - (- (7 / 9000000))) - (y2 - y1) / ((- (7 / 9000000)) - (- (1 / 1000000))))"
    and "((- (1 / 1800000)) - (- (7 / 9000000))) * m2 + 2 * ((- (1 / 3000000)) - (- (7 / 9000000))) * m3 + ((- (1 / 3000000)) - (- (1 / 1800000))) * m4 =
       6 * ((y4 - y3) / ((- (1 / 3000000)) - (- (1 / 1800000))) - (y3 - y2) / ((- (1 / 1800000)) - (- (7 / 9000000))))"
    and "((- (1 / 3000000)) - (- (1 / 1800000))) * m3 + 2 * ((- (1 / 9000000)) - (- (1 / 1800000))) * m4 + ((- (1 / 9000000)) - (- (1 / 3000000))) * m5 =
       6 * ((y5 - y4) / ((- (1 / 9000000)) - (- (1 / 3000000))) - (y4 - y3) / ((- (1 / 3000000)) - (- (1 / 1800000))))"
    and "((- (1 / 9000000)) - (- (1 / 3000000))) * m4 + 2 * ((1 / 9000000) - (- (1 / 3000000))) * m5 + ((1 / 9000000) - (- (1 / 9000000))) * m6 =
       6 * ((y6 - y5) / ((1 / 9000000) - (- (1 / 9000000))) - (y5 - y4) / ((- (1 / 9000000)) - (- (1 / 3000000))))"
    and "((1 / 9000000) - (- (1 / 9000000))) * m5 + 2 * ((1 / 3000000) - (- (1 / 9000000))) * m6 + ((1 / 3000000) - (1 / 9000000)) * m7 =
       6 * ((y7 - y6) / ((1 / 3000000) - (1 / 9000000)) - (y6 - y5) / ((1 / 9000000) - (- (1 / 9000000))))"
    and "((1 / 3000000) - (1 / 9000000)) * m6 + 2 * ((1 / 1800000) - (1 / 9000000)) * m7 + ((1 / 1800000) - (1 / 3000000)) * m8 =
       6 * ((y8 - y7) / ((1 / 1800000) - (1 / 3000000)) - (y7 - y6) / ((1 / 3000000) - (1 / 9000000)))"
    and "((1 / 1800000) - (1 / 3000000)) * m7 + 2 * ((7 / 9000000) - (1 / 3000000)) * m8 + ((7 / 9000000) - (1 / 1800000)) * m9 =
       6 * ((y9 - y8) / ((7 / 9000000) - (1 / 1800000)) - (y8 - y7) / ((1 / 1800000) - (1 / 3000000)))"
    and "((7 / 9000000) - (1 / 1800000)) * m8 + 2 * ((1 / 1000000) - (1 / 1800000)) * m9 + ((1 / 1000000) - (7 / 9000000)) * m10 =
       6 * ((y10 - y9) / ((1 / 1000000) - (7 / 9000000)) - (y9 - y8) / ((7 / 9000000) - (1 / 1800000)))"
    and "((1 / 1000000) - (7 / 9000000)) * m9 + 2 * ((101 / 100000000) - (7 / 9000000)) * m10 + ((101 / 100000000) - (1 / 1000000)) * m11 =
       6 * ((y11 - y10) / ((101 / 100000000) - (1 / 1000000)) - (y10 - y9) / ((1 / 1000000) - (7 / 9000000)))"
    and "(m10 - m11) / ((1 / 1000000) - (101 / 100000000)) =
       (m9 - m10) / ((7 / 9000000) - (1 / 1000000))"
  using assms by (simp_all add: cubic_spline_def)

lemma samples_sum:
  assumes "cubic_spline [(- (101 / 100000000)), (- (1 / 1000000)), (- (7 / 9000000)),
    (- (1 / 1800000)), (- (1 / 3000000)), (- (1 / 9000000)), (1 / 9000000), (1 / 3000000),
    (1 / 1800000), (7 / 9000000), (1 / 1000000), (101 / 100000000)]
     [y0, y1, y2, y3, y4, y5, y6, y7, y8, y9, y10, y11]
     [m0, m1, m2, m3, m4, m5, m6, m7, m8, m9, m10, m11]"
  shows "sum_list (map (spline [(- (101 / 100000000)), (- (1 / 1000000)), (- (7 / 9000000)),
    (- (1 / 1800000)), (- (1 / 3000000)), (- (1 / 9000000)), (1 / 9000000), (1 / 3000000),
    (1 / 1800000), (7 / 9000000), (1 / 1000000), (101 / 100000000)]
     [y0, y1, y2, y3, y4, y5, y6, y7, y8, y9, y10, y11]
     [m0, m1, m2, m3, m4, m5, m6, m7, m8, m9, m10, m11])
     [(- (101 / 100000000)), (- (9797 / 9900000000)), (- (1919 / 1980000000)),
       (- (3131 / 3300000000)), (- (9191 / 9900000000)), (- (8989 / 9900000000)),
       (- (2929 / 3300000000)), (- (1717 / 1980000000)), (- (8383 / 9900000000)),
       (- (909 / 1100000000)), (- (7979 / 9900000000)), (- (707 / 900000000)), (- (101 / 132000000)),
       (- (7373 / 9900000000)), (- (7171 / 9900000000)), (- (2323 / 3300000000)),
       (- (6767 / 9900000000)), (- (1313 / 1980000000)), (- (707 / 1100000000)),
       (- (6161 / 9900000000)), (- (5959 / 9900000000)), (- (1919 / 3300000000)),
       (- (101 / 180000000)), (- (5353 / 9900000000)), (- (1717 / 3300000000)),
       (- (4949 / 9900000000)), (- (4747 / 9900000000)), (- (101 / 220000000)),
       (- (4343 / 9900000000)), (- (4141 / 9900000000)), (- (1313 / 3300000000)),
       (- (3737 / 9900000000)), (- (707 / 1980000000)), (- (101 / 300000000)),
       (- (3131 / 9900000000)), (- (2929 / 9900000000)), (- (303 / 1100000000)),
       (- (101 / 396000000)), (- (2323 / 9900000000)), (- (707 / 3300000000)),
       (- (1919 / 9900000000)), (- (1717 / 9900000000)), (- (101 / 660000000)),
       (- (1313 / 9900000000)), (- (101 / 900000000)), (- (101 / 1100000000)),
       (- (707 / 9900000000)), (- (101 / 1980000000)), (- (101 / 3300000000)),
       (- (101 / 9900000000)), (101 / 9900000000), (101 / 3300000000), (101 / 1980000000),
       (707 / 9900000000), (101 / 1100000000), (101 / 900000000), (1313 / 9900000000),
       (101 / 660000000), (1717 / 9900000000), (1919 / 9900000000), (707 / 3300000000),
       (2323 / 9900000000), (101 / 396000000), (303 / 1100000000), (2929 / 9900000000),
       (3131 / 9900000000), (101 / 300000000), (707 / 1980000000), (3737 / 9900000000),
       (1313 / 3300000000), (4141 / 9900000000), (4343 / 9900000000), (101 / 220000000),
       (4747 / 9900000000), (4949 / 9900000000), (1717 / 3300000000), (5353 / 9900000000),
       (101 / 180000000), (1919 / 3300000000), (5959 / 9900000000), (6161 / 9900000000),
       (707 / 1100000000), (1313 / 1980000000), (6767 / 9900000000), (2323 / 3300000000),
       (7171 / 9900000000), (7373 / 9900000000), (101 / 132000000), (707 / 900000000),
       (7979 / 9900000000), (909 / 1100000000), (8383 / 9900000000), (1717 / 1980000000),
       (2929 / 3300000000), (8989 / 9900000000), (9191 / 9900000000), (3131 / 3300000000),
       (1919 / 1980000000), (9797 / 9900000000), (101 / 100000000)]) =
     (- (76428166 / 4302639)) * y0 +
     (37727467877681 / 1564596000000) * y1 +
     (14023352331863 / 1274856000000) * y2 +
     (78675272719 / 7243500000) * y3 +
     (126313608103 / 11589600000) * y4 +
     (1262053231327 / 115896000000) * y5 +
     (1262053231327 / 115896000000) * y6 +
     (126313608103 / 11589600000) * y7 +
     (78675272719 / 7243500000) * y8 +
     (14023352331863 / 1274856000000) * y9 +
     (37727467877681 / 1564596000000) * y10 +
     (- (76428166 / 4302639)) * y11"
proof -
  note e = spline_equations[OF assms]
  have z0: "(- (100000000)) * m0 + 104500000 * m1 + (- (4500000)) * m2 = 0"
    using e(1) by simp
  have z1: "(1 / 100000000) * m0 + (209 / 450000000) * m1 + (1 / 4500000) * m2 - (600000000 * y0 + (- (627000000)) * y1 + 27000000 * y2) = 0"
    using e(2) by simp
  have z2: "(1 / 4500000) * m1 + (1 / 1125000) * m2 + (1 / 4500000) * m3 - (27000000 * y1 + (- (54000000)) * y2 + 27000000 * y3) = 0"
    using e(3) by simp
  have z3: "(1 / 4500000) * m2 + (1 / 1125000) * m3 + (1 / 4500000) * m4 - (27000000 * y2 + (- (54000000)) * y3 + 27000000 * y4) = 0"
    using e(4) by simp
  have z4: "(1 / 4500000) * m3 + (1 / 1125000) * m4 + (1 / 4500000) * m5 - (27000000 * y3 + (- (54000000)) * y4 + 27000000 * y5) = 0"
    using e(5) by simp
  have z5: "(1 / 4500000) * m4 + (1 / 1125000) * m5 + (1 / 4500000) * m6 - (27000000 * y4 + (- (54000000)) * y5 + 27000000 * y6) = 0"
    using e(6) by simp
  have z6: "(1 / 4500000) * m5 + (1 / 1125000) * m6 + (1 / 4500000) * m7 - (27000000 * y5 + (- (54000000)) * y6 + 27000000 * y7) = 0"
    using e(7) by simp
  have z7: "(1 / 4500000) * m6 + (1 / 1125000) * m7 + (1 / 4500000) * m8 - (27000000 * y6 + (- (54000000)) * y7 + 27000000 * y8) = 0"
    using e(8) by simp
  have z8: "(1 / 4500000) * m7 + (1 / 1125000) * m8 + (1 / 4500000) * m9 - (27000000 * y7 + (- (54000000)) * y8 + 27000000 * y9) = 0"
    using e(9) by simp
  have z9: "(1 / 4500000) * m8 + (1 / 1125000) * m9 + (1 / 4500000) * m10 - (27000000 * y8 + (- (54000000)) * y9 + 27000000 * y10) = 0"
    using e(10) by simp
  have z10: "(1 / 4500000) * m9 + (209 / 450000000) * m10 + (1 / 100000000) * m11 - (27000000 * y9 + (- (627000000)) * y10 + 600000000 * y11) = 0"
    using e(11) by simp
  have z11: "4500000 * m9 + (- (104500000)) * m10 + 100000000 * m11 = 0"
    using e(12) by simp
  have s: "sum_list (map (spline [(- (101 / 100000000)), (- (1 / 1000000)), (- (7 / 9000000)),
    (- (1 / 1800000)), (- (1 / 3000000)), (- (1 / 9000000)), (1 / 9000000), (1 / 3000000),
    (1 / 1800000), (7 / 9000000), (1 / 1000000), (101 / 100000000)]
     [y0, y1, y2, y3, y4, y5, y6, y7, y8, y9, y10, y11]
     [m0, m1, m2, m3, m4, m5, m6, m7, m8, m9, m10, m11])
     [(- (101 / 100000000)), (- (9797 / 9900000000)), (- (1919 / 1980000000)),
       (- (3131 / 3300000000)), (- (9191 / 9900000000)), (- (8989 / 9900000000)),
       (- (2929 / 3300000000)), (- (1717 / 1980000000)), (- (8383 / 9900000000)),
       (- (909 / 1100000000)), (- (7979 / 9900000000)), (- (707 / 900000000)), (- (101 / 132000000)),
       (- (7373 / 9900000000)), (- (7171 / 9900000000)), (- (2323 / 3300000000)),
       (- (6767 / 9900000000)), (- (1313 / 1980000000)), (- (707 / 1100000000)),
       (- (6161 / 9900000000)), (- (5959 / 9900000000)), (- (1919 / 3300000000)),
       (- (101 / 180000000)), (- (5353 / 9900000000)), (- (1717 / 3300000000)),
       (- (4949 / 9900000000)), (- (4747 / 9900000000)), (- (101 / 220000000)),
       (- (4343 / 9900000000)), (- (4141 / 9900000000)), (- (1313 / 3300000000)),
       (- (3737 / 9900000000)), (- (707 / 1980000000)), (- (101 / 300000000)),
       (- (3131 / 9900000000)), (- (2929 / 9900000000)), (- (303 / 1100000000)),
       (- (101 / 396000000)), (- (2323 / 9900000000)), (- (707 / 3300000000)),
       (- (1919 / 9900000000)), (- (1717 / 9900000000)), (- (101 / 660000000)),
       (- (1313 / 9900000000)), (- (101 / 900000000)), (- (101 / 1100000000)),
       (- (707 / 9900000000)), (- (101 / 1980000000)), (- (101 / 3300000000)),
       (- (101 / 9900000000)), (101 / 9900000000), (101 / 3300000000), (101 / 1980000000),
       (707 / 9900000000), (101 / 1100000000), (101 / 900000000), (1313 / 9900000000),
       (101 / 660000000), (1717 / 9900000000), (1919 / 9900000000), (707 / 3300000000),
       (2323 / 9900000000), (101 / 396000000), (303 / 1100000000), (2929 / 9900000000),
       (3131 / 9900000000), (101 / 300000000), (707 / 1980000000), (3737 / 9900000000),
       (1313 / 3300000000), (4141 / 9900000000), (4343 / 9900000000), (101 / 220000000),
       (4747 / 9900000000), (4949 / 9900000000), (1717 / 3300000000), (5353 / 9900000000),
       (101 / 180000000), (1919 / 3300000000), (5959 / 9900000000), (6161 / 9900000000),
       (707 / 1100000000), (1313 / 1980000000), (6767 / 9900000000), (2323 / 3300000000),
       (7171 / 9900000000), (7373 / 9900000000), (101 / 132000000), (707 / 900000000),
       (7979 / 9900000000), (909 / 1100000000), (8383 / 9900000000), (1717 / 1980000000),
       (2929 / 3300000000), (8989 / 9900000000), (9191 / 9900000000), (3131 / 3300000000),
       (1919 / 1980000000), (9797 / 9900000000), (101 / 100000000)]) =
     (0 * m0 + 0 * m1 + 1 * y0 + 0 * y1) +
     ((- (26728243 / 1188000000000000000000)) * m1 + (- (80173471 / 3564000000000000000000)) * m2 + (1087 / 200) * y1 + (1113 / 200) * y2) +
     ((- (3203591 / 142560000000000000000)) * m2 + (- (3202289 / 142560000000000000000)) * m3 + (213 / 40) * y2 + (227 / 40) * y3) +
     ((- (79901101 / 3564000000000000000000)) * m3 + (- (79841099 / 3564000000000000000000)) * m4 + (1043 / 200) * y3 + (1157 / 200) * y4) +
     ((- (79620643 / 3564000000000000000000)) * m4 + (- (26507719 / 1188000000000000000000)) * m5 + (1021 / 200) * y4 + (1179 / 200) * y5) +
     ((- (79397 / 3564000000000000000)) * m5 + (- (79397 / 3564000000000000000)) * m6 + 5 * y5 + 5 * y6) +
     ((- (26507719 / 1188000000000000000000)) * m6 + (- (79620643 / 3564000000000000000000)) * m7 + (1179 / 200) * y6 + (1021 / 200) * y7) +
     ((- (79841099 / 3564000000000000000000)) * m7 + (- (79901101 / 3564000000000000000000)) * m8 + (1157 / 200) * y7 + (1043 / 200) * y8) +
     ((- (3202289 / 142560000000000000000)) * m8 + (- (3203591 / 142560000000000000000)) * m9 + (227 / 40) * y8 + (213 / 40) * y9) +
     ((- (80173471 / 3564000000000000000000)) * m9 + (- (26728243 / 1188000000000000000000)) * m10 + (1113 / 200) * y9 + (1087 / 200) * y10) +
     (0 * m10 + 0 * m11 + 0 * y10 + 1 * y11)"
    unfolding spline_pieces by (simp only: sum_list_append piece_sum_0 piece_sum_1 piece_sum_2 piece_sum_3 piece_sum_4 piece_sum_5 piece_sum_6 piece_sum_7 piece_sum_8 piece_sum_9 piece_sum_10 add.assoc)
  have c: "(0 * m0 + 0 * m1 + 1 * y0 + 0 * y1) +
     ((- (26728243 / 1188000000000000000000)) * m1 + (- (80173471 / 3564000000000000000000)) * m2 + (1087 / 200) * y1 + (1113 / 200) * y2) +
     ((- (3203591 / 142560000000000000000)) * m2 + (- (3202289 / 142560000000000000000)) * m3 + (213 / 40) * y2 + (227 / 40) * y3) +
     ((- (79901101 / 3564000000000000000000)) * m3 + (- (79841099 / 3564000000000000000000)) * m4 + (1043 / 200) * y3 + (1157 / 200) * y4) +
     ((- (79620643 / 3564000000000000000000)) * m4 + (- (26507719 / 1188000000000000000000)) * m5 + (1021 / 200) * y4 + (1179 / 200) * y5) +
     ((- (79397 / 3564000000000000000)) * m5 + (- (79397 / 3564000000000000000)) * m6 + 5 * y5 + 5 * y6) +
     ((- (26507719 / 1188000000000000000000)) * m6 + (- (79620643 / 3564000000000000000000)) * m7 + (1179 / 200) * y6 + (1021 / 200) * y7) +
     ((- (79841099 / 3564000000000000000000)) * m7 + (- (79901101 / 3564000000000000000000)) * m8 + (1157 / 200) * y7 + (1043 / 200) * y8) +
     ((- (3202289 / 142560000000000000000)) * m8 + (- (3203591 / 142560000000000000000)) * m9 + (227 / 40) * y8 + (213 / 40) * y9) +
     ((- (80173471 / 3564000000000000000000)) * m9 + (- (26728243 / 1188000000000000000000)) * m10 + (1113 / 200) * y9 + (1087 / 200) * y10) +
     (0 * m10 + 0 * m11 + 0 * y10 + 1 * y11) =
     (- (16146161 / 5163166800000000000000000000000)) * ((- (100000000)) * m0 + 104500000 * m1 + (- (4500000)) * m2) +
     (- (16146161 / 516316680000000)) * ((1 / 100000000) * m0 + (209 / 450000000) * m1 + (1 / 4500000) * m2 - (600000000 * y0 + (- (627000000)) * y1 + 27000000 * y2)) +
     (- (161535253591 / 4693788000000000000)) * ((1 / 4500000) * m1 + (1 / 1125000) * m2 + (1 / 4500000) * m3 - (27000000 * y1 + (- (54000000)) * y2 + 27000000 * y3)) +
     (- (62869226953 / 1877515200000000000)) * ((1 / 4500000) * m2 + (1 / 1125000) * m3 + (1 / 4500000) * m4 - (27000000 * y2 + (- (54000000)) * y3 + 27000000 * y4)) +
     (- (78882747959 / 2346894000000000000)) * ((1 / 4500000) * m3 + (1 / 1125000) * m4 + (1 / 4500000) * m5 - (27000000 * y3 + (- (54000000)) * y4 + 27000000 * y5)) +
     (- (313629925817 / 9387576000000000000)) * ((1 / 4500000) * m4 + (1 / 1125000) * m5 + (1 / 4500000) * m6 - (27000000 * y4 + (- (54000000)) * y5 + 27000000 * y6)) +
     (- (313629925817 / 9387576000000000000)) * ((1 / 4500000) * m5 + (1 / 1125000) * m6 + (1 / 4500000) * m7 - (27000000 * y5 + (- (54000000)) * y6 + 27000000 * y7)) +
     (- (78882747959 / 2346894000000000000)) * ((1 / 4500000) * m6 + (1 / 1125000) * m7 + (1 / 4500000) * m8 - (27000000 * y6 + (- (54000000)) * y7 + 27000000 * y8)) +
     (- (62869226953 / 1877515200000000000)) * ((1 / 4500000) * m7 + (1 / 1125000) * m8 + (1 / 4500000) * m9 - (27000000 * y7 + (- (54000000)) * y8 + 27000000 * y9)) +
     (- (161535253591 / 4693788000000000000)) * ((1 / 4500000) * m8 + (1 / 1125000) * m9 + (1 / 4500000) * m10 - (27000000 * y8 + (- (54000000)) * y9 + 27000000 * y10)) +
     (- (16146161 / 516316680000000)) * ((1 / 4500000) * m9 + (209 / 450000000) * m10 + (1 / 100000000) * m11 - (27000000 * y9 + (- (627000000)) * y10 + 600000000 * y11)) +
     (16146161 / 5163166800000000000000000000000) * (4500000 * m9 + (- (104500000)) * m10 + 100000000 * m11) +
     ((- (76428166 / 4302639)) * y0 +
     (37727467877681 / 1564596000000) * y1 +
     (14023352331863 / 1274856000000) * y2 +
     (78675272719 / 7243500000) * y3 +
     (126313608103 / 11589600000) * y4 +
     (1262053231327 / 115896000000) * y5 +
     (1262053231327 / 115896000000) * y6 +
     (126313608103 / 11589600000) * y7 +
     (78675272719 / 7243500000) * y8 +
     (14023352331863 / 1274856000000) * y9 +
     (37727467877681 / 1564596000000) * y10 +
     (- (76428166 / 4302639)) * y11)"
    by (simp add: distrib_left right_diff_distrib)
  show ?thesis unfolding s c z0 z1 z2 z3 z4 z5 z6 z7 z8 z9 z10 z11 by simp
qed

lemma piece_aux:
  fixes d :: real
  assumes "d \<noteq> 0"
  shows "ma * d ^ 3 / (6 * d) + mb * 0 ^ 3 / (6 * d) + (ya / d - ma * d / 6) * d +
         (yb / d - mb * d / 6) * 0 = ya"
  using assms by (simp add: field_simps power3_eq_cube)

lemma piece_ends:
  assumes "x0 \<noteq> x1"
  shows "piece x0 x1 y0 y1 m0 m1 x0 = y0" and "piece x0 x1 y0 y1 m0 m1 x1 = y1"
proof -
  have h: "x1 - x0 \<noteq> 0" using assms by simp
  show "piece x0 x1 y0 y1 m0 m1 x0 = y0"
    unfolding piece_def diff_self by (rule piece_aux[OF h])
  have "m1 * (x1 - x0) ^ 3 / (6 * (x1 - x0)) + m0 * 0 ^ 3 / (6 * (x1 - x0)) +
        (y1 / (x1 - x0) - m1 * (x1 - x0) / 6) * (x1 - x0) +
        (y0 / (x1 - x0) - m0 * (x1 - x0) / 6) * 0 = y1"
    by (rule piece_aux[OF h])
  then show "piece x0 x1 y0 y1 m0 m1 x1 = y1"
    unfolding piece_def diff_self by simp
qed

lemma within_bounds_explicit:
  "within_bounds [p1, p2, p3, p4, p5, p6, p7, p8, p9, p10] \<longleftrightarrow>
     (0.2 / 10 ^ 6 \<le> p1 \<and> p1 \<le> 0.8 / 10 ^ 6) \<and> (0.2 / 10 ^ 6 \<le> p2 \<and> p2 \<le> 0.8 / 10 ^ 6) \<and>
     (0.2 / 10 ^ 6 \<le> p3 \<and> p3 \<le> 0.8 / 10 ^ 6) \<and> (0.2 / 10 ^ 6 \<le> p4 \<and> p4 \<le> 0.8 / 10 ^ 6) \<and>
     (0.2 / 10 ^ 6 \<le> p5 \<and> p5 \<le> 0.8 / 10 ^ 6) \<and> (0.2 / 10 ^ 6 \<le> p6 \<and> p6 \<le> 0.8 / 10 ^ 6) \<and>
     (0.2 / 10 ^ 6 \<le> p7 \<and> p7 \<le> 0.8 / 10 ^ 6) \<and> (0.2 / 10 ^ 6 \<le> p8 \<and> p8 \<le> 0.8 / 10 ^ 6) \<and>
     (0.2 / 10 ^ 6 \<le> p9 \<and> p9 \<le> 0.8 / 10 ^ 6) \<and> (0.2 / 10 ^ 6 \<le> p10 \<and> p10 \<le> 0.8 / 10 ^ 6)"
  unfolding within_bounds_def bounds_def length_initial_points_y
  by (simp add: eval_nat_numeral)

lemma spline_area:
  assumes cs: "cubic_spline [(- (101 / 100000000)), (- (1 / 1000000)), (- (7 / 9000000)),
    (- (1 / 1800000)), (- (1 / 3000000)), (- (1 / 9000000)), (1 / 9000000), (1 / 3000000),
    (1 / 1800000), (7 / 9000000), (1 / 1000000), (101 / 100000000)]
     [0.25 / 10 ^ 6, p1, p2, p3, p4, p5, p6, p7, p8, p9, p10, 0.6 / 10 ^ 6]
     [m0, m1, m2, m3, m4, m5, m6, m7, m8, m9, m10, m11]"
  shows "trapezoids (zip [(- (101 / 100000000)), (- (9797 / 9900000000)), (- (1919 / 1980000000)),
    (- (3131 / 3300000000)), (- (9191 / 9900000000)), (- (8989 / 9900000000)),
    (- (2929 / 3300000000)), (- (1717 / 1980000000)), (- (8383 / 9900000000)),
    (- (909 / 1100000000)), (- (7979 / 9900000000)), (- (707 / 900000000)), (- (101 / 132000000)),
    (- (7373 / 9900000000)), (- (7171 / 9900000000)), (- (2323 / 3300000000)),
    (- (6767 / 9900000000)), (- (1313 / 1980000000)), (- (707 / 1100000000)),
    (- (6161 / 9900000000)), (- (5959 / 9900000000)), (- (1919 / 3300000000)), (- (101 / 180000000)),
    (- (5353 / 9900000000)), (- (1717 / 3300000000)), (- (4949 / 9900000000)),
    (- (4747 / 9900000000)), (- (101 / 220000000)), (- (4343 / 9900000000)), (- (4141 / 9900000000)),
    (- (1313 / 3300000000)), (- (3737 / 9900000000)), (- (707 / 1980000000)), (- (101 / 300000000)),
    (- (3131 / 9900000000)), (- (2929 / 9900000000)), (- (303 / 1100000000)), (- (101 / 396000000)),
    (- (2323 / 9900000000)), (- (707 / 3300000000)), (- (1919 / 9900000000)),
    (- (1717 / 9900000000)), (- (101 / 660000000)), (- (1313 / 9900000000)), (- (101 / 900000000)),
    (- (101 / 1100000000)), (- (707 / 9900000000)), (- (101 / 1980000000)), (- (101 / 3300000000)),
    (- (101 / 9900000000)), (101 / 9900000000), (101 / 3300000000), (101 / 1980000000),
    (707 / 9900000000), (101 / 1100000000), (101 / 900000000), (1313 / 9900000000),
    (101 / 660000000), (1717 / 9900000000), (1919 / 9900000000), (707 / 3300000000),
    (2323 / 9900000000), (101 / 396000000), (303 / 1100000000), (2929 / 9900000000),
    (3131 / 9900000000), (101 / 300000000), (707 / 1980000000), (3737 / 9900000000),
    (1313 / 3300000000), (4141 / 9900000000), (4343 / 9900000000), (101 / 220000000),
    (4747 / 9900000000), (4949 / 9900000000), (1717 / 3300000000), (5353 / 9900000000),
    (101 / 180000000), (1919 / 3300000000), (5959 / 9900000000), (6161 / 9900000000),
    (707 / 1100000000), (1313 / 1980000000), (6767 / 9900000000), (2323 / 3300000000),
    (7171 / 9900000000), (7373 / 9900000000), (101 / 132000000), (707 / 900000000),
    (7979 / 9900000000), (909 / 1100000000), (8383 / 9900000000), (1717 / 1980000000),
    (2929 / 3300000000), (8989 / 9900000000), (9191 / 9900000000), (3131 / 3300000000),
    (1919 / 1980000000), (9797 / 9900000000), (101 / 100000000)]
     (map (spline [(- (101 / 100000000)), (- (1 / 1000000)), (- (7 / 9000000)), (- (1 / 1800000)),
       (- (1 / 3000000)), (- (1 / 9000000)), (1 / 9000000), (1 / 3000000), (1 / 1800000),
       (7 / 9000000), (1 / 1000000), (101 / 100000000)]
       [0.25 / 10 ^ 6, p1, p2, p3, p4, p5, p6, p7, p8, p9, p10, 0.6 / 10 ^ 6]
       [m0, m1, m2, m3, m4, m5, m6, m7, m8, m9, m10, m11])
     [(- (101 / 100000000)), (- (9797 / 9900000000)), (- (1919 / 1980000000)),
       (- (3131 / 3300000000)), (- (9191 / 9900000000)), (- (8989 / 9900000000)),
       (- (2929 / 3300000000)), (- (1717 / 1980000000)), (- (8383 / 9900000000)),
       (- (909 / 1100000000)), (- (7979 / 9900000000)), (- (707 / 900000000)), (- (101 / 132000000)),
       (- (7373 / 9900000000)), (- (7171 / 9900000000)), (- (2323 / 3300000000)),
       (- (6767 / 9900000000)), (- (1313 / 1980000000)), (- (707 / 1100000000)),
       (- (6161 / 9900000000)), (- (5959 / 9900000000)), (- (1919 / 3300000000)),
       (- (101 / 180000000)), (- (5353 / 9900000000)), (- (1717 / 3300000000)),
       (- (4949 / 9900000000)), (- (4747 / 9900000000)), (- (101 / 220000000)),
       (- (4343 / 9900000000)), (- (4141 / 9900000000)), (- (1313 / 3300000000)),
       (- (3737 / 9900000000)), (- (707 / 1980000000)), (- (101 / 300000000)),
       (- (3131 / 9900000000)), (- (2929 / 9900000000)), (- (303 / 1100000000)),
       (- (101 / 396000000)), (- (2323 / 9900000000)), (- (707 / 3300000000)),
       (- (1919 / 9900000000)), (- (1717 / 9900000000)), (- (101 / 660000000)),
       (- (1313 / 9900000000)), (- (101 / 900000000)), (- (101 / 1100000000)),
       (- (707 / 9900000000)), (- (101 / 1980000000)), (- (101 / 3300000000)),
       (- (101 / 9900000000)), (101 / 9900000000), (101 / 3300000000), (101 / 1980000000),
       (707 / 9900000000), (101 / 1100000000), (101 / 900000000), (1313 / 9900000000),
       (101 / 660000000), (1717 / 9900000000), (1919 / 9900000000), (707 / 3300000000),
       (2323 / 9900000000), (101 / 396000000), (303 / 1100000000), (2929 / 9900000000),
       (3131 / 9900000000), (101 / 300000000), (707 / 1980000000), (3737 / 9900000000),
       (1313 / 3300000000), (4141 / 9900000000), (4343 / 9900000000), (101 / 220000000),
       (4747 / 9900000000), (4949 / 9900000000), (1717 / 3300000000), (5353 / 9900000000),
       (101 / 180000000), (1919 / 3300000000), (5959 / 9900000000), (6161 / 9900000000),
       (707 / 1100000000), (1313 / 1980000000), (6767 / 9900000000), (2323 / 3300000000),
       (7171 / 9900000000), (7373 / 9900000000), (101 / 132000000), (707 / 900000000),
       (7979 / 9900000000), (909 / 1100000000), (8383 / 9900000000), (1717 / 1980000000),
       (2929 / 3300000000), (8989 / 9900000000), (9191 / 9900000000), (3131 / 3300000000),
       (1919 / 1980000000), (9797 / 9900000000), (101 / 100000000)])) =
     (101 / 4950000000) * (2 * ((- (76428166 / 4302639)) * (0.25 / 10 ^ 6) +
     (37727467877681 / 1564596000000) * p1 +
     (14023352331863 / 1274856000000) * p2 +
     (78675272719 / 7243500000) * p3 +
     (126313608103 / 11589600000) * p4 +
     (1262053231327 / 115896000000) * p5 +
     (1262053231327 / 115896000000) * p6 +
     (126313608103 / 11589600000) * p7 +
     (78675272719 / 7243500000) * p8 +
     (14023352331863 / 1274856000000) * p9 +
     (37727467877681 / 1564596000000) * p10 +
     (- (76428166 / 4302639)) * (0.6 / 10 ^ 6)) - 0.25 / 10 ^ 6 - 0.6 / 10 ^ 6)"
proof -
  let ?X = "[(- (101 / 100000000)), (- (1 / 1000000)), (- (7 / 9000000)), (- (1 / 1800000)),
    (- (1 / 3000000)), (- (1 / 9000000)), (1 / 9000000), (1 / 3000000), (1 / 1800000), (7 / 9000000),
    (1 / 1000000), (101 / 100000000)]"
  let ?Y = "[0.25 / 10 ^ 6, p1, p2, p3, p4, p5, p6, p7, p8, p9, p10, 0.6 / 10 ^ 6]"
  let ?M = "[m0, m1, m2, m3, m4, m5, m6, m7, m8, m9, m10, m11]"
  let ?S = "[(- (101 / 100000000)), (- (9797 / 9900000000)), (- (1919 / 1980000000)),
    (- (3131 / 3300000000)), (- (9191 / 9900000000)), (- (8989 / 9900000000)),
    (- (2929 / 3300000000)), (- (1717 / 1980000000)), (- (8383 / 9900000000)),
    (- (909 / 1100000000)), (- (7979 / 9900000000)), (- (707 / 900000000)), (- (101 / 132000000)),
    (- (7373 / 9900000000)), (- (7171 / 9900000000)), (- (2323 / 3300000000)),
    (- (6767 / 9900000000)), (- (1313 / 1980000000)), (- (707 / 1100000000)),
    (- (6161 / 9900000000)), (- (5959 / 9900000000)), (- (1919 / 3300000000)), (- (101 / 180000000)),
    (- (5353 / 9900000000)), (- (1717 / 3300000000)), (- (4949 / 9900000000)),
    (- (4747 / 9900000000)), (- (101 / 220000000)), (- (4343 / 9900000000)), (- (4141 / 9900000000)),
    (- (1313 / 3300000000)), (- (3737 / 9900000000)), (- (707 / 1980000000)), (- (101 / 300000000)),
    (- (3131 / 9900000000)), (- (2929 / 9900000000)), (- (303 / 1100000000)), (- (101 / 396000000)),
    (- (2323 / 9900000000)), (- (707 / 3300000000)), (- (1919 / 9900000000)),
    (- (1717 / 9900000000)), (- (101 / 660000000)), (- (1313 / 9900000000)), (- (101 / 900000000)),
    (- (101 / 1100000000)), (- (707 / 9900000000)), (- (101 / 1980000000)), (- (101 / 3300000000)),
    (- (101 / 9900000000)), (101 / 9900000000), (101 / 3300000000), (101 / 1980000000),
    (707 / 9900000000), (101 / 1100000000), (101 / 900000000), (1313 / 9900000000),
    (101 / 660000000), (1717 / 9900000000), (1919 / 9900000000), (707 / 3300000000),
    (2323 / 9900000000), (101 / 396000000), (303 / 1100000000), (2929 / 9900000000),
    (3131 / 9900000000), (101 / 300000000), (707 / 1980000000), (3737 / 9900000000),
    (1313 / 3300000000), (4141 / 9900000000), (4343 / 9900000000), (101 / 220000000),
    (4747 / 9900000000), (4949 / 9900000000), (1717 / 3300000000), (5353 / 9900000000),
    (101 / 180000000), (1919 / 3300000000), (5959 / 9900000000), (6161 / 9900000000),
    (707 / 1100000000), (1313 / 1980000000), (6767 / 9900000000), (2323 / 3300000000),
    (7171 / 9900000000), (7373 / 9900000000), (101 / 132000000), (707 / 900000000),
    (7979 / 9900000000), (909 / 1100000000), (8383 / 9900000000), (1717 / 1980000000),
    (2929 / 3300000000), (8989 / 9900000000), (9191 / 9900000000), (3131 / 3300000000),
    (1919 / 1980000000), (9797 / 9900000000), (101 / 100000000)]"
  have l: "length (map (spline ?X ?Y ?M) ?S) = 100" by simp
  have hd: "hd (map (spline ?X ?Y ?M) ?S) = 0.25 / 10 ^ 6"
    unfolding spline_pieces by (simp add: piece_ends)
  have la: "last (map (spline ?X ?Y ?M) ?S) = 0.6 / 10 ^ 6"
    unfolding spline_pieces by (simp add: piece_ends)
  have t: "trapezoids (zip (linspace (- (1.01 / 10 ^ 6)) (1.01 / 10 ^ 6) 100) (map (spline ?X ?Y ?M) ?S)) =
      (1.01 / 10 ^ 6 - - (1.01 / 10 ^ 6)) / real (100 - 1) *
      (2 * sum_list (map (spline ?X ?Y ?M) ?S) - hd (map (spline ?X ?Y ?M) ?S) - last (map (spline ?X ?Y ?M) ?S))"
    by (rule trapezoids_linspace[OF l]) simp
  have hh: "(1.01 / 10 ^ 6 - - (1.01 / 10 ^ 6)) / real (100 - 1) = (101 / 4950000000)" by simp
  show ?thesis
    using t unfolding sx_explicit hd la samples_sum[OF cs] hh .
qed

lemma spline_area_positive:
  assumes "0.2 / 10 ^ 6 \<le> p1" "0.2 / 10 ^ 6 \<le> p2" "0.2 / 10 ^ 6 \<le> p3" "0.2 / 10 ^ 6 \<le> p4" "0.2 / 10 ^ 6 \<le> p5"
    "0.2 / 10 ^ 6 \<le> p6" "0.2 / 10 ^ 6 \<le> p7" "0.2 / 10 ^ 6 \<le> p8" "0.2 / 10 ^ 6 \<le> p9" "0.2 / 10 ^ 6 \<le> (p10 :: real)"
  shows "0 < (101 / 4950000000) * (2 * ((- (76428166 / 4302639)) * (0.25 / 10 ^ 6) +
     (37727467877681 / 1564596000000) * p1 +
     (14023352331863 / 1274856000000) * p2 +
     (78675272719 / 7243500000) * p3 +
     (126313608103 / 11589600000) * p4 +
     (1262053231327 / 115896000000) * p5 +
     (1262053231327 / 115896000000) * p6 +
     (126313608103 / 11589600000) * p7 +
     (78675272719 / 7243500000) * p8 +
     (14023352331863 / 1274856000000) * p9 +
     (37727467877681 / 1564596000000) * p10 +
     (- (76428166 / 4302639)) * (0.6 / 10 ^ 6)) - 0.25 / 10 ^ 6 - 0.6 / 10 ^ 6)"
  using assms by simp

lemma within_bounds_low: "within_bounds low_params"
  by (simp add: within_bounds_def bounds_def low_params_def eval_nat_numeral)

lemma low_spline:
  "cubic_spline (- (1.01 / 10 ^ 6) # initial_points_x @ [1.01 / 10 ^ 6])
     (0.25 / 10 ^ 6 # low_params @ [0.6 / 10 ^ 6]) low_moments"
  by (simp add: cubic_spline_def low_params_def low_moments_def initial_points_x_eq
      eval_nat_numeral)

lemma low_sample:
  "spline (- (1.01 / 10 ^ 6) # initial_points_x @ [1.01 / 10 ^ 6])
     (0.25 / 10 ^ 6 # low_params @ [0.6 / 10 ^ 6]) low_moments
     (linspace (- (1.01 / 10 ^ 6)) (1.01 / 10 ^ 6) 100 ! 94) < 0"
  by (simp add: nth_linspace low_params_def low_moments_def initial_points_x_eq
      eval_nat_numeral piece_def power3_eq_cube)

lemma upper_sixth:
  fixes up :: "point list"
  assumes "length up = 100"
  shows "(rev up @ map m up) ! 5 = up ! 94"
    and "(rev up @ map m up) ! 5 \<in> set (take 100 (rev up @ map m up))"
proof -
  show n: "(rev up @ map m up) ! 5 = up ! 94"
    using assms by (simp add: nth_append rev_nth)
  have "up ! 94 \<in> set up" using assms by (intro nth_mem) simp
  moreover have "take 100 (rev up @ map m up) = rev up" using assms by simp
  ultimately show "(rev up @ map m up) ! 5 \<in> set (take 100 (rev up @ map m up))"
    unfolding n by simp
qed

section \<open>The claims\<close>

text \<open>
  C1. For every vector of ten parameters the geometry function computes what the
  specification describes: the two boundary points are appended, a curve is fitted through
  the twelve points, it is sampled at 100 evenly spaced positions between the boundary
  points, the samples are mirrored about \<open>y = 0\<close>, and the reversed upper branch is
  followed by the lower branch.
\<close>

theorem splitter_steps:
  assumes "length params = 10"
  shows "splitter fit params = Inr (spec_splitter fit params)"
  unfolding splitter_outline[OF assms] spec_splitter_def spec_mirror_def spec_upper_def
    spec_positions_linspace spec_knots_fst[OF assms] spec_knots_snd[OF assms] zip_map_same ..

theorem splitter_steps_witness:
  "length initial_points_y = 10 \<and>
   splitter segments initial_points_y = Inr (spec_splitter segments initial_points_y)"
  using splitter_steps[of initial_points_y segments] by simp

text \<open>
  C2. For every vector of ten parameters within the bounds the geometry function returns
  a polygon of \<open>2 * n_interpolation_points\<close> points, that is 200 points.
\<close>

theorem splitter_point_count:
  assumes "within_bounds params"
  shows "\<exists>poly. splitter fit params = Inr poly \<and>
           length poly = 2 * n_interpolation_points \<and> length poly = 200"
  by (simp add: splitter_outline[OF within_bounds_length[OF assms]] n_interpolation_points_def)

theorem splitter_point_count_witness:
  "within_bounds initial_points_y \<and>
   (\<exists>poly. splitter segments initial_points_y = Inr poly \<and>
      length poly = 2 * n_interpolation_points \<and> length poly = 200)"
  using splitter_point_count[of initial_points_y segments] within_bounds_initial by simp

text \<open>
  C3. For every vector of ten parameters, point \<open>i\<close> and point \<open>199 - i\<close> of the returned
  polygon have the same \<open>x\<close> and opposite \<open>y\<close>: the first hundred points are the sampled
  curve over the hundred sampled positions, and the second hundred are their mirror images
  about \<open>y = 0\<close>.
\<close>

theorem splitter_mirrored:
  assumes "length params = 10" and "splitter fit params = Inr poly" and "i < 200"
  shows "poly ! (199 - i) = (fst (poly ! i), - snd (poly ! i)) \<and>
         map fst (rev (take 100 poly)) = linspace (- (1.01 / 10 ^ 6)) (1.01 / 10 ^ 6) 100 \<and>
         drop 100 poly = map (\<lambda>p. (fst p, - snd p)) (rev (take 100 poly))"
proof -
  let ?sxs = "linspace (- (1.01 / 10 ^ 6)) (1.01 / 10 ^ 6) 100"
  let ?f = "fit (- (1.01 / 10^6) # initial_points_x @ [1.01 / 10^6]) (0.25 / 10^6 # params @ [0.6 / 10^6])"
  let ?up = "zip ?sxs (map ?f ?sxs)"
  have poly: "poly = rev ?up @ map (\<lambda>p. (fst p, - snd p)) ?up"
    using assms(2) unfolding splitter_outline[OF assms(1)] by simp
  have len: "length ?up = 100" by simp
  have "i < 2 * length ?up" using assms(3) by simp
  from nth_rev_append_mirror[OF this]
  have a: "poly ! (199 - i) = (fst (poly ! i), - snd (poly ! i))"
    unfolding poly[symmetric] len by simp
  have t: "take 100 poly = rev ?up" unfolding poly by simp
  have d: "drop 100 poly = map (\<lambda>p. (fst p, - snd p)) ?up" unfolding poly by simp
  have b: "map fst (rev (take 100 poly)) = ?sxs" unfolding t by (simp add: zip_map_same comp_def)
  show ?thesis using a b d unfolding t by simp
qed

theorem splitter_mirrored_witness:
  "length initial_points_y = 10 \<and> (0::nat) < 200 \<and>
   (\<exists>poly. splitter segments initial_points_y = Inr poly \<and>
      poly ! (199 - 0) = (fst (poly ! 0), - snd (poly ! 0)) \<and>
      map fst (rev (take 100 poly)) = linspace (- (1.01 / 10 ^ 6)) (1.01 / 10 ^ 6) 100 \<and>
      drop 100 poly = map (\<lambda>p. (fst p, - snd p)) (rev (take 100 poly)))"
proof -
  obtain poly where p: "splitter segments initial_points_y = Inr poly"
    using splitter_outline[of initial_points_y segments] by simp
  have l: "length initial_points_y = 10" by simp
  have i: "(0::nat) < 200" by simp
  from splitter_mirrored[OF l p i] show ?thesis using p l i by blast
qed

text \<open>
  C4, as amended. For every vector of ten parameters within the bounds, when the fitted
  curve is the cubic spline with not-a-knot end conditions through the twelve knots, the
  signed area of the returned polygon is positive: the polygon is counter-clockwise in
  that sense. The sampled \<open>y\<close> values of the upper half need not be positive.
\<close>

theorem splitter_counter_clockwise:
  assumes "within_bounds params"
    and "points_x = Inr pxs" and "points_y params = Inr pys"
    and "polygon_points_x pxs = Inr sxs"
    and "cubic_spline pxs pys ms"
    and "list_all (\<lambda>x. fit pxs pys x = spline pxs pys ms x) sxs"
    and "splitter fit params = Inr poly"
  shows "0 < shoelace poly"
proof -
  have len: "length params = 10" by (rule within_bounds_length[OF assms(1)])
  have pxs: "pxs = - (1.01 / 10 ^ 6) # initial_points_x @ [1.01 / 10 ^ 6]"
    using assms(2) unfolding points_x_eq by simp
  have pys: "pys = 0.25 / 10 ^ 6 # params @ [0.6 / 10 ^ 6]"
    using assms(3) unfolding points_y_eq by simp
  have sxs: "sxs = linspace (- (1.01 / 10 ^ 6)) (1.01 / 10 ^ 6) 100"
    using assms(4) unfolding pxs polygon_points_x_eq by simp
  from list10[OF len] obtain p1 p2 p3 p4 p5 p6 p7 p8 p9 p10
    where params: "params = [p1, p2, p3, p4, p5, p6, p7, p8, p9, p10]"
    by auto
  have "length ms = 12" using assms(5) unfolding cubic_spline_def pxs by simp
  from list12[OF this] obtain m0 m1 m2 m3 m4 m5 m6 m7 m8 m9 m10 m11
    where ms: "ms = [m0, m1, m2, m3, m4, m5, m6, m7, m8, m9, m10, m11]"
    by auto
  have ys: "pys = [0.25 / 10 ^ 6, p1, p2, p3, p4, p5, p6, p7, p8, p9, p10, 0.6 / 10 ^ 6]"
    unfolding pys params by simp
  let ?up = "zip sxs (map (fit pxs pys) sxs)"
  have poly: "poly = rev ?up @ map (\<lambda>p. (fst p, - snd p)) ?up"
    using assms(7) unfolding splitter_outline[OF len] pxs pys sxs by simp
  have same: "map (fit pxs pys) sxs = map (spline pxs pys ms) sxs"
    using assms(6) by (simp add: list_all_iff)
  have ne: "?up \<noteq> []" unfolding sxs by (simp add: linspace_def)
  have "shoelace poly = trapezoids ?up"
    unfolding poly by (rule shoelace_outline[OF ne])
  then have area: "shoelace poly = trapezoids (zip sxs (map (spline pxs pys ms) sxs))"
    unfolding same .
  have cs: "cubic_spline pxs pys ms" by (rule assms(5))
  note a = spline_area[OF cs[unfolded pxs px_explicit ys ms]]
  have b: "0.2 / 10 ^ 6 \<le> p1" "0.2 / 10 ^ 6 \<le> p2" "0.2 / 10 ^ 6 \<le> p3" "0.2 / 10 ^ 6 \<le> p4"
    "0.2 / 10 ^ 6 \<le> p5" "0.2 / 10 ^ 6 \<le> p6" "0.2 / 10 ^ 6 \<le> p7" "0.2 / 10 ^ 6 \<le> p8"
    "0.2 / 10 ^ 6 \<le> p9" "0.2 / 10 ^ 6 \<le> p10"
    using assms(1) unfolding params within_bounds_explicit by blast+
  show ?thesis
    unfolding area sxs sx_explicit pxs px_explicit ys ms a
    by (rule spline_area_positive[OF b])
qed

theorem splitter_counter_clockwise_witness:
  "within_bounds low_params \<and>
   (\<exists>pxs pys sxs poly.
      points_x = Inr pxs \<and> points_y low_params = Inr pys \<and> polygon_points_x pxs = Inr sxs \<and>
      cubic_spline pxs pys low_moments \<and>
      list_all (\<lambda>x. spline pxs pys low_moments x = spline pxs pys low_moments x) sxs \<and>
      splitter (\<lambda>xs ys. spline xs ys low_moments) low_params = Inr poly \<and>
      0 < shoelace poly)"
proof -
  let ?fit = "\<lambda>xs ys. spline xs ys low_moments"
  have len: "length low_params = 10" by (simp add: low_params_def)
  obtain poly where p: "splitter ?fit low_params = Inr poly"
    using splitter_outline[OF len, of ?fit] by simp
  have px: "points_x = Inr (- (1.01 / 10 ^ 6) # initial_points_x @ [1.01 / 10 ^ 6])"
    by (rule points_x_eq)
  have py: "points_y low_params = Inr (0.25 / 10 ^ 6 # low_params @ [0.6 / 10 ^ 6])"
    by (rule points_y_eq)
  have sx: "polygon_points_x (- (1.01 / 10 ^ 6) # initial_points_x @ [1.01 / 10 ^ 6]) =
      Inr (linspace (- (1.01 / 10 ^ 6)) (1.01 / 10 ^ 6) 100)"
    by (rule polygon_points_x_eq)
  have ag: "list_all (\<lambda>x. ?fit (- (1.01 / 10 ^ 6) # initial_points_x @ [1.01 / 10 ^ 6])
        (0.25 / 10 ^ 6 # low_params @ [0.6 / 10 ^ 6]) x =
      spline (- (1.01 / 10 ^ 6) # initial_points_x @ [1.01 / 10 ^ 6])
        (0.25 / 10 ^ 6 # low_params @ [0.6 / 10 ^ 6]) low_moments x)
      (linspace (- (1.01 / 10 ^ 6)) (1.01 / 10 ^ 6) 100)"
    by (simp add: list_all_iff)
  from splitter_counter_clockwise[OF within_bounds_low px py sx low_spline ag p]
  show ?thesis using within_bounds_low px py sx low_spline ag p by blast
qed

text \<open>
  C4 as stated fails in its premise that the bounds make the sampled upper half positive:
  with every parameter at the lower bound \<open>0.2e-6\<close> the spline swings below zero before
  the last knot, and the sixth point of the polygon, in its upper half, has a negative
  \<open>y\<close>.
\<close>

theorem upper_half_dips_below_zero:
  "within_bounds low_params \<and>
   cubic_spline (- (1.01 / 10 ^ 6) # initial_points_x @ [1.01 / 10 ^ 6])
     (0.25 / 10 ^ 6 # low_params @ [0.6 / 10 ^ 6]) low_moments \<and>
   (case splitter (\<lambda>xs ys. spline xs ys low_moments) low_params of
      Inl e \<Rightarrow> False
    | Inr poly \<Rightarrow> poly ! 5 \<in> set (take 100 poly) \<and> snd (poly ! 5) < 0)"
proof -
  let ?fit = "\<lambda>xs ys. spline xs ys low_moments"
  let ?sxs = "linspace (- (1.01 / 10 ^ 6)) (1.01 / 10 ^ 6) 100"
  let ?pxs = "- (1.01 / 10 ^ 6) # initial_points_x @ [1.01 / 10 ^ 6]"
  let ?pys = "0.25 / 10 ^ 6 # low_params @ [0.6 / 10 ^ 6]"
  let ?up = "zip ?sxs (map (?fit ?pxs ?pys) ?sxs)"
  let ?m = "\<lambda>p::point. (fst p, - snd p)"
  have len: "length low_params = 10" by (simp add: low_params_def)
  have p: "splitter ?fit low_params = Inr (rev ?up @ map ?m ?up)"
    by (rule splitter_outline[OF len])
  have l: "length ?up = 100" by simp
  note n = upper_sixth(1)[OF l, of ?m] and mem = upper_sixth(2)[OF l, of ?m]
  have u: "?up ! 94 = (?sxs ! 94, spline ?pxs ?pys low_moments (?sxs ! 94))" by simp
  have neg: "snd ((rev ?up @ map ?m ?up) ! 5) < 0"
    unfolding n u using low_sample by simp
  show ?thesis unfolding p using within_bounds_low low_spline neg mem by (simp del: take_append nth_append)
qed


text \<open>
  C5. When reading \<^verbatim>\<open>2D_parameters.txt\<close> fails, which it does when the file is absent or
  does not parse, the script prints its notice and takes the default vector, the ten
  evenly spaced values from \<open>0.25e-6\<close> to \<open>0.6e-6\<close>; otherwise it takes what it loaded.
\<close>

theorem prev_results_fallback:
  "(loadtxt w ''2D_parameters.txt'' = Inl e \<longrightarrow>
      prev_results w =
        (linspace (0.25 / 10 ^ 6) (0.6 / 10 ^ 6) 10,
         print w (''Couldn't find the file containing 2D optimization parameters. '' @
                  ''Starting with default parameters'')) \<and>
      length (fst (prev_results w)) = 10) \<and>
   (loadtxt w ''2D_parameters.txt'' = Inr v \<longrightarrow> prev_results w = (v, w)) \<and>
   (files w (resolve (cwd w) ''2D_parameters.txt'') = None \<longrightarrow>
      loadtxt w ''2D_parameters.txt'' = Inl OSError) \<and>
   (files w (resolve (cwd w) ''2D_parameters.txt'') = Some Unparseable \<longrightarrow>
      loadtxt w ''2D_parameters.txt'' = Inl ValueError)"
  by (simp add: prev_results_fail prev_results_ok loadtxt_cases initial_points_y_linspace)

theorem prev_results_fallback_witness:
  "loadtxt w_absent ''2D_parameters.txt'' = Inl OSError \<and>
   loadtxt w_garbled ''2D_parameters.txt'' = Inl ValueError \<and>
   loadtxt w_short ''2D_parameters.txt'' = Inr [1, 2, 3] \<and>
   fst (prev_results w_absent) = linspace (0.25 / 10 ^ 6) (0.6 / 10 ^ 6) 10 \<and>
   stdout (snd (prev_results w_absent)) =
     [''Couldn't find the file containing 2D optimization parameters. Starting with default parameters''] \<and>
   fst (prev_results w_garbled) = linspace (0.25 / 10 ^ 6) (0.6 / 10 ^ 6) 10 \<and>
   length (fst (prev_results w_garbled)) = 10 \<and>
   prev_results w_short = ([1, 2, 3], w_short)"
  using prev_results_fallback[of w_absent OSError "[]"]
    prev_results_fallback[of w_garbled ValueError "[]"]
    prev_results_fallback[of w_short OSError "[1, 2, 3]"]
    loadtxt_absent loadtxt_garbled loadtxt_short
  by (simp add: print_def w_absent_def)




text \<open>
  C7. For every vector of ten parameters, each of the 100 sampled positions lies between
  the least and the greatest of the twelve knot positions, which are the two boundary
  points, so every position passes the range check of the interpolation object and its
  evaluation returns.
\<close>

theorem samples_in_domain:
  assumes "length params = 10"
  shows "\<exists>pxs pys sxs ip sys.
     points_x = Inr pxs \<and> points_y params = Inr pys \<and> polygon_points_x pxs = Inr sxs \<and>
     interp1d pxs pys = Inr ip \<and> length pxs = 12 \<and> length sxs = 100 \<and>
     Min (set pxs) = - (1.01 / 10 ^ 6) \<and> Max (set pxs) = 1.01 / 10 ^ 6 \<and>
     (\<forall>x \<in> set sxs. Min (set pxs) \<le> x \<and> x \<le> Max (set pxs)) \<and>
     list_all (in_domain ip) sxs \<and> call fit ip sxs = Inr sys"
proof -
  let ?sxs = "linspace (- (1.01 / 10 ^ 6)) (1.01 / 10 ^ 6) 100"
  let ?pxs = "- (1.01 / 10^6) # initial_points_x @ [1.01 / 10^6]"
  let ?pys = "0.25 / 10^6 # params @ [0.6 / 10^6]"
  let ?ip = "\<lparr>knots_x = ?pxs, knots_y = ?pys\<rparr>"
  have rng: "\<forall>x \<in> set ?sxs. Min (set ?pxs) \<le> x \<and> x \<le> Max (set ?pxs)"
    unfolding Min_points_x Max_points_x using samples_within by blast
  have c: "call fit ?ip ?sxs = Inr (map (fit ?pxs ?pys) ?sxs)" by (rule call_eq)
  have dom: "list_all (in_domain ?ip) ?sxs"
  proof (rule ccontr)
    assume "\<not> list_all (in_domain ?ip) ?sxs"
    then have "call fit ?ip ?sxs = Inl ValueError" by (simp only: call_def if_False)
    with c show False by simp
  qed
  have l1: "length ?pxs = 12" by simp
  have l2: "length ?sxs = 100" by (rule length_linspace)
  from points_x_eq points_y_eq[of params] polygon_points_x_eq interp1d_eq[OF assms] l1 l2
    Min_points_x Max_points_x rng dom c
  show ?thesis by blast
qed

theorem samples_in_domain_witness:
  "length initial_points_y = 10 \<and>
   (\<exists>pxs pys sxs ip sys.
     points_x = Inr pxs \<and> points_y initial_points_y = Inr pys \<and> polygon_points_x pxs = Inr sxs \<and>
     interp1d pxs pys = Inr ip \<and> length pxs = 12 \<and> length sxs = 100 \<and>
     Min (set pxs) = - (1.01 / 10 ^ 6) \<and> Max (set pxs) = 1.01 / 10 ^ 6 \<and>
     (\<forall>x \<in> set sxs. Min (set pxs) \<le> x \<and> x \<le> Max (set pxs)) \<and>
     list_all (in_domain ip) sxs \<and> call segments ip sxs = Inr sys)"
  using samples_in_domain[of initial_points_y segments] length_initial_points_y by blast




text \<open>
  C9, as amended. For every vector of ten parameters and every fitted curve that passes
  through its knots, the end points of the two halves do not depend on the parameters:
  the upper half runs from \<open>(1.01e-6, 0.6e-6)\<close> to \<open>(-1.01e-6, 0.25e-6)\<close> and the lower half
  from \<open>(-1.01e-6, -0.25e-6)\<close> to \<open>(1.01e-6, -0.6e-6)\<close>.
\<close>

theorem splitter_end_points:
  assumes "length params = 10"
    and "points_x = Inr pxs" and "points_y params = Inr pys"
    and "interpolates fit pxs pys"
    and "splitter fit params = Inr poly"
  shows "poly ! 0 = (1.01 / 10 ^ 6, 0.6 / 10 ^ 6) \<and>
         poly ! 99 = (- (1.01 / 10 ^ 6), 0.25 / 10 ^ 6) \<and>
         poly ! 100 = (- (1.01 / 10 ^ 6), - (0.25 / 10 ^ 6)) \<and>
         poly ! 199 = (1.01 / 10 ^ 6, - (0.6 / 10 ^ 6))"
proof -
  let ?sxs = "linspace (- (1.01 / 10 ^ 6)) (1.01 / 10 ^ 6) 100"
  let ?pxs = "- (1.01 / 10^6) # initial_points_x @ [1.01 / 10^6]"
  let ?pys = "0.25 / 10^6 # params @ [0.6 / 10^6]"
  let ?f = "fit ?pxs ?pys"
  let ?up = "zip ?sxs (map ?f ?sxs)"
  have pxs: "pxs = ?pxs" using assms(2) unfolding points_x_eq by simp
  have pys: "pys = ?pys" using assms(3) unfolding points_y_eq by simp
  have all: "list_all (\<lambda>(x, y). ?f x = y) (zip ?pxs ?pys)"
    using assms(4) unfolding pxs pys interpolates_def .
  have lo: "?f (- (1.01 / 10 ^ 6)) = 0.25 / 10 ^ 6" using all by simp
  have "(1.01 / 10 ^ 6, 0.6 / 10 ^ 6) \<in> set (zip ?pxs ?pys)"
    using assms(1) by (simp add: zip_append)
  with all have hi: "?f (1.01 / 10 ^ 6) = 0.6 / 10 ^ 6" by (auto simp: list_all_iff)
  have poly: "poly = rev ?up @ map (\<lambda>p. (fst p, - snd p)) ?up"
    using assms(5) unfolding splitter_outline[OF assms(1)] by simp
  have len: "length ?up = 100" by simp
  have u: "?up ! i = (?sxs ! i, ?f (?sxs ! i))" if "i < 100" for i using that by simp
  have "?up ! 0 = (?sxs ! 0, ?f (?sxs ! 0))" by (rule u) simp
  then have u0: "?up ! 0 = (- (1.01 / 10 ^ 6), 0.25 / 10 ^ 6)"
    unfolding sample_ends lo .
  have "?up ! 99 = (?sxs ! 99, ?f (?sxs ! 99))" by (rule u) simp
  then have u99: "?up ! 99 = (1.01 / 10 ^ 6, 0.6 / 10 ^ 6)"
    unfolding sample_ends hi .
  have p0: "poly ! 0 = ?up ! 99" and p99: "poly ! 99 = ?up ! 0"
    and p100: "poly ! 100 = (fst (?up ! 0), - snd (?up ! 0))"
    and p199: "poly ! 199 = (fst (?up ! 99), - snd (?up ! 99))"
    unfolding poly by (rule outline_corners[OF len])+
  show ?thesis unfolding p0 p99 p100 p199 u0 u99 by simp
qed

theorem splitter_end_points_witness:
  "length initial_points_y = 10 \<and>
   (\<exists>pxs pys poly. points_x = Inr pxs \<and> points_y initial_points_y = Inr pys \<and>
      interpolates segments pxs pys \<and> splitter segments initial_points_y = Inr poly \<and>
      poly ! 0 = (1.01 / 10 ^ 6, 0.6 / 10 ^ 6) \<and>
      poly ! 99 = (- (1.01 / 10 ^ 6), 0.25 / 10 ^ 6) \<and>
      poly ! 100 = (- (1.01 / 10 ^ 6), - (0.25 / 10 ^ 6)) \<and>
      poly ! 199 = (1.01 / 10 ^ 6, - (0.6 / 10 ^ 6)))"
proof -
  obtain poly where p: "splitter segments initial_points_y = Inr poly"
    using splitter_outline[of initial_points_y segments] by simp
  have l: "length initial_points_y = 10" by simp
  from splitter_end_points[OF l points_x_eq points_y_eq interpolates_segments_initial p]
  show ?thesis using l points_x_eq points_y_eq[of initial_points_y] interpolates_segments_initial p
    by blast
qed

text \<open>
  C9 as stated fails for the lower half, whose first point has magnitude \<open>0.25e-6\<close>, not
  \<open>0.6e-6\<close>.
\<close>

theorem lower_half_starts_at_input_end:
  "(case splitter segments initial_points_y of
      Inl e \<Rightarrow> False
    | Inr poly \<Rightarrow>
        poly ! 100 = (- (1.01 / 10 ^ 6), - (0.25 / 10 ^ 6)) \<and>
        \<bar>snd (poly ! 100)\<bar> \<noteq> 0.6 / 10 ^ 6)"
proof -
  let ?sxs = "linspace (- (1.01 / 10 ^ 6)) (1.01 / 10 ^ 6) 100"
  let ?pxs = "- (1.01 / 10^6) # initial_points_x @ [1.01 / 10^6]"
  let ?pys = "0.25 / 10^6 # initial_points_y @ [0.6 / 10^6]"
  let ?up = "zip ?sxs (map (segments ?pxs ?pys) ?sxs)"
  let ?m = "\<lambda>p::point. (fst p, - snd p)"
  have p: "splitter segments initial_points_y = Inr (rev ?up @ map ?m ?up)"
    by (rule splitter_outline) simp
  have len: "length ?up = 100" by simp
  have lo: "segments ?pxs ?pys (- (1.01 / 10 ^ 6)) = 0.25 / 10 ^ 6"
    by (simp add: initial_points_x_eq initial_points_y_eq)
  have "?up ! 0 = (?sxs ! 0, segments ?pxs ?pys (?sxs ! 0))" by simp
  then have u0: "?up ! 0 = (- (1.01 / 10 ^ 6), 0.25 / 10 ^ 6)" unfolding sample_ends lo .
  have "(rev ?up @ map ?m ?up) ! 100 = ?m (?up ! 0)" by (rule outline_corners(3)[OF len])
  then have c: "(rev ?up @ map ?m ?up) ! 100 = (- (1.01 / 10 ^ 6), - (0.25 / 10 ^ 6))"
    unfolding u0 by simp
  show ?thesis unfolding p using c by simp
qed

text \<open>
  C10. Loading validates nothing: whatever numbers the file holds become the initial
  parameters handed to the geometry object, whatever their count and values, and the
  notice of the fallback appears exactly when loading raised.
\<close>

theorem prev_results_unvalidated:
  "(files w (resolve (cwd w) ''2D_parameters.txt'') = Some (Numbers v) \<longrightarrow>
      prev_results w = (v, w) \<and> initial_params (polygon fit (fst (prev_results w))) = v) \<and>
   (stdout (snd (prev_results w)) \<noteq> stdout w \<longleftrightarrow>
      (\<exists>e. loadtxt w ''2D_parameters.txt'' = Inl e))"
proof -
  have "prev_results w = (v, w) \<and> initial_params (polygon fit (fst (prev_results w))) = v"
    if "files w (resolve (cwd w) ''2D_parameters.txt'') = Some (Numbers v)"
    using that by (simp add: prev_results_def loadtxt_def polygon_def)
  moreover have "stdout (snd (prev_results w)) \<noteq> stdout w \<longleftrightarrow>
      (\<exists>e. loadtxt w ''2D_parameters.txt'' = Inl e)"
    by (cases "loadtxt w ''2D_parameters.txt''") (simp_all add: prev_results_def print_def)
  ultimately show ?thesis by blast
qed

theorem prev_results_unvalidated_witness:
  "files w_short (resolve (cwd w_short) ''2D_parameters.txt'') = Some (Numbers [1, 2, 3]) \<and>
   length [1, 2, 3 :: real] \<noteq> 10 \<and> \<not> within_bounds [1, 2, 3] \<and>
   prev_results w_short = ([1, 2, 3], w_short) \<and>
   initial_params (polygon segments (fst (prev_results w_short))) = [1, 2, 3] \<and>
   stdout (snd (prev_results w_short)) = stdout w_short"
  using prev_results_unvalidated[of w_short "[1, 2, 3]" segments] loadtxt_short
  by (simp add: w_short_def resolve_same_dir within_bounds_def bounds_def polygon_def)

end
